theory Spec2Isabelle
  imports Complex_Main "HOL-Library.Multiset"
begin

section \<open>The notebook advection-diffusion-reaction.py\<close>

text \<open>
  The notebook builds symbolic variational forms, hands them to a finite-element library
  and steps forward in time. The embedding has three layers:
  \<^item> the symbolic forms, as the tree of operator applications that the Python source
    builds (a datatype; the library's own algebraic normalisation is not modelled);
  \<^item> the finite-element library (assembly, boundary conditions, linear and nonlinear
    solves), which is not part of the repository: a record of functions that every model
    function takes as its first argument;
  \<^item> the program state: a store holding the degrees of freedom of every
    \<open>Function\<close> object, the solver object, the Python globals that the loop rebinds,
    the three output files, and the list of library calls made so far.
  Python floats are modelled by exact rationals; rounding is not modelled.
\<close>

subsection \<open>Objects and symbolic expressions\<close>

text \<open>
  Every \<open>Function(...)\<close> call of the source is executed once (there is one
  \<open>NavierStokesSolver\<close> instance), so the call sites name the objects:
  \<open>w\<close>, \<open>u\<close>, \<open>u_n\<close> of the script and \<open>u_k\<close>, \<open>u_\<close>,
  \<open>p_k\<close>, \<open>p_\<close> of the solver object (\<open>u_\<close> and \<open>p_\<close> are written
  \<open>Fn_nss_u_new\<close> and \<open>Fn_nss_p_new\<close>).
\<close>

datatype fn = Fn_w | Fn_u | Fn_u_n | Fn_nss_u_k | Fn_nss_u_new | Fn_nss_p_k | Fn_nss_p_new

datatype space = Space_W | Space_V | Space_nss_V | Space_nss_Q

fun fn_space :: "fn \<Rightarrow> space" where
  "fn_space Fn_w = Space_W"
| "fn_space Fn_u = Space_V"
| "fn_space Fn_u_n = Space_V"
| "fn_space Fn_nss_u_k = Space_nss_V"
| "fn_space Fn_nss_u_new = Space_nss_V"
| "fn_space Fn_nss_p_k = Space_nss_Q"
| "fn_space Fn_nss_p_new = Space_nss_Q"

datatype measure_ufl = dx | ds

datatype expr =
    Function fn
  | Split expr nat
  | TrialFunction space
  | TestFunction space
  | TestFunctions space nat
  | Constant rat
  | ConstantVec "rat list"
  | Expression "string list" nat
  | Lit rat
  | FacetNormal
  | Identity nat
  | Add expr expr
  | Sub expr expr
  | Mul expr expr
  | Div expr expr
  | Dot expr expr
  | Inner expr expr
  | Grad expr
  | NablaGrad expr
  | Div_ufl expr
  | Sym expr
  | Integral expr measure_ufl
  | Lhs expr
  | Rhs expr

text \<open>
  \<open>Split e i\<close> is component \<open>i\<close> (from 1) of \<open>split(e)\<close>, \<open>TestFunctions V i\<close>
  component \<open>i\<close> of \<open>TestFunctions(V)\<close>, \<open>Lit\<close> a Python number, \<open>Integral e dx\<close>
  the product \<open>e*dx\<close>. Python's \<open>*\<close> and \<open>/\<close> bind tighter than \<open>+\<close> and binary
  \<open>-\<close>, and all four associate to the left.
\<close>

subsection \<open>Parameters of the script (lines 256 to 265)\<close>

definition T_final :: rat where
  "T_final = 1 / 2"

definition num_steps :: nat where
  "num_steps = 500"

definition dt :: rat where
  "dt = T_final / of_nat num_steps"

definition eps_const :: expr where
  "eps_const = Constant (1 / 100)"

definition K_const :: expr where
  "K_const = Constant 10"

definition k_const :: expr where
  "k_const = Constant dt"

definition f_1 :: expr where
  "f_1 = Expression [''pow(x[0]-0.1,2)+pow(x[1]-0.1,2)<0.05*0.05 ? 0.1 : 0''] 1"

definition f_2 :: expr where
  "f_2 = Expression [''pow(x[0]-0.1,2)+pow(x[1]-0.3,2)<0.05*0.05 ? 0.1 : 0''] 1"

definition f_3 :: expr where
  "f_3 = Constant 0"

text \<open>The components of \<open>u\<close>, \<open>u_n\<close> and of the test functions (lines 219, 236, 237).\<close>

definition u_comp :: "nat \<Rightarrow> expr" where
  "u_comp i = Split (Function Fn_u) i"

definition u_n_comp :: "nat \<Rightarrow> expr" where
  "u_n_comp i = Split (Function Fn_u_n) i"

definition v_comp :: "nat \<Rightarrow> expr" where
  "v_comp i = TestFunctions Space_V i"

subsection \<open>The residual F (lines 273 to 279)\<close>

text \<open>
  The form is built once, from the values that the names \<open>k\<close>, \<open>K\<close> and \<open>eps\<close>
  have when line 273 runs; these are the arguments \<open>kk\<close>, \<open>KK\<close> and \<open>ee\<close>.
\<close>

definition F_form :: "expr \<Rightarrow> expr \<Rightarrow> expr \<Rightarrow> expr" where
  "F_form kk KK ee =
    Sub (Sub (Sub
      (Add (Sub (Add (Add (Add
        (Add (Add (Add (Add
          (Add (Add (Add
            (Integral (Mul (Div (Sub (u_comp 1) (u_n_comp 1)) kk) (v_comp 1)) dx)
            (Integral (Mul (Dot (Function Fn_w) (Grad (u_comp 1))) (v_comp 1)) dx))
            (Integral (Mul ee (Dot (Grad (u_comp 1)) (Grad (v_comp 1)))) dx))
            (Integral (Mul (Mul (Mul KK (u_comp 1)) (u_comp 2)) (v_comp 1)) dx))
          (Integral (Mul (Div (Sub (u_comp 2) (u_n_comp 2)) kk) (v_comp 2)) dx))
          (Integral (Mul (Dot (Function Fn_w) (Grad (u_comp 2))) (v_comp 2)) dx))
          (Integral (Mul ee (Dot (Grad (u_comp 2)) (Grad (v_comp 2)))) dx))
          (Integral (Mul (Mul (Mul KK (u_comp 1)) (u_comp 2)) (v_comp 2)) dx))
        (Integral (Mul (Div (Sub (u_comp 3) (u_n_comp 3)) kk) (v_comp 3)) dx))
        (Integral (Mul (Dot (Function Fn_w) (Grad (u_comp 3))) (v_comp 3)) dx))
        (Integral (Mul ee (Dot (Grad (u_comp 3)) (Grad (v_comp 3)))) dx))
        (Integral (Mul (Mul (Mul KK (u_comp 1)) (u_comp 2)) (v_comp 3)) dx))
        (Integral (Mul (Mul KK (u_comp 3)) (v_comp 3)) dx))
      (Integral (Mul f_1 (v_comp 1)) dx))
      (Integral (Mul f_2 (v_comp 2)) dx))
      (Integral (Mul f_3 (v_comp 3)) dx)"

subsection \<open>Class NavierStokesSolver: class attributes and forms (lines 291 to 368)\<close>

definition inflow :: string where
  "inflow = ''near(x[0], 0)''"

definition outflow :: string where
  "outflow = ''near(x[0], 2.2)''"

definition walls :: string where
  "walls = ''near(x[1], 0) || near(x[1], 0.41)''"

definition cylinder :: string where
  "cylinder = ''on_boundary && x[0]>0.1 && x[0]<0.3 && x[1]>0.1 && x[1]<0.3''"

definition inflow_profile :: "string list" where
  "inflow_profile = [''4.0*1.5*x[1]*(0.41 - x[1]) / pow(0.41, 2)'', ''0'']"

definition mu :: expr where
  "mu = Constant (1 / 1000)"

definition rho :: expr where
  "rho = Lit 1"

definition nss_f :: expr where
  "nss_f = ConstantVec [0, 0]"

definition epsilon :: "expr \<Rightarrow> expr" where
  "epsilon e = Sym (NablaGrad e)"

text \<open>
  \<open>len(u)\<close> of a vector-valued expression is the number of its components; the mesh
  is two-dimensional, so the vector spaces \<open>W\<close> and \<open>self.V\<close> have two.
\<close>

fun space_len :: "space \<Rightarrow> nat" where
  "space_len Space_W = 2"
| "space_len Space_V = 3"
| "space_len Space_nss_V = 2"
| "space_len Space_nss_Q = 1"

fun len_ufl :: "expr \<Rightarrow> nat" where
  "len_ufl (Function g) = space_len (fn_space g)"
| "len_ufl (TrialFunction s) = space_len s"
| "len_ufl (TestFunction s) = space_len s"
| "len_ufl (ConstantVec xs) = length xs"
| "len_ufl (Expression cs d) = length cs"
| "len_ufl (Add a b) = len_ufl a"
| "len_ufl (Sub a b) = len_ufl a"
| "len_ufl (Mul a b) = len_ufl b"
| "len_ufl (Div a b) = len_ufl a"
| "len_ufl e = 1"

definition sigma :: "expr \<Rightarrow> expr \<Rightarrow> expr" where
  "sigma e p = Sub (Mul (Mul (Lit 2) mu) (epsilon e)) (Mul p (Identity (len_ufl e)))"

record bc =
  bc_space :: space
  bc_value :: expr
  bc_where :: string

definition bcu_inflow :: bc where
  "bcu_inflow = \<lparr>bc_space = Space_nss_V, bc_value = Expression inflow_profile 2,
     bc_where = inflow\<rparr>"

definition bcu_walls :: bc where
  "bcu_walls = \<lparr>bc_space = Space_nss_V, bc_value = ConstantVec [0, 0], bc_where = walls\<rparr>"

definition bcu_cylinder :: bc where
  "bcu_cylinder = \<lparr>bc_space = Space_nss_V, bc_value = ConstantVec [0, 0],
     bc_where = cylinder\<rparr>"

definition bcp_outflow :: bc where
  "bcp_outflow = \<lparr>bc_space = Space_nss_Q, bc_value = Constant 0, bc_where = outflow\<rparr>"

text \<open>The attributes \<open>self.v\<close>, \<open>self.q\<close>, \<open>self.u\<close>, \<open>self.p\<close>, \<open>self.n\<close>.\<close>

definition nss_v :: expr where
  "nss_v = TestFunction Space_nss_V"

definition nss_q :: expr where
  "nss_q = TestFunction Space_nss_Q"

definition nss_u :: expr where
  "nss_u = TrialFunction Space_nss_V"

definition nss_p :: expr where
  "nss_p = TrialFunction Space_nss_Q"

definition nss_n :: expr where
  "nss_n = FacetNormal"

definition u_mid_form :: expr where
  "u_mid_form = Mul (Lit (1 / 2)) (Add (Function Fn_nss_u_k) nss_u)"

definition F1_form :: "expr \<Rightarrow> expr" where
  "F1_form D =
    Sub (Sub (Add (Add (Add
      (Integral (Mul rho (Dot (Div (Sub nss_u (Function Fn_nss_u_k)) D) nss_v)) dx)
      (Integral (Mul rho (Dot (Dot (Function Fn_nss_u_k) (NablaGrad (Function Fn_nss_u_k)))
         nss_v)) dx))
      (Integral (Inner (sigma u_mid_form (Function Fn_nss_p_k)) (epsilon nss_v)) dx))
      (Integral (Dot (Mul (Function Fn_nss_p_k) nss_n) nss_v) ds))
      (Integral (Dot (Mul (Mul mu (NablaGrad u_mid_form)) nss_n) nss_v) ds))
      (Integral (Dot nss_f nss_v) dx)"

definition a2_form :: expr where
  "a2_form = Integral (Dot (NablaGrad nss_p) (NablaGrad nss_q)) dx"

definition L2_form :: "expr \<Rightarrow> expr" where
  "L2_form D =
    Sub (Integral (Dot (NablaGrad (Function Fn_nss_p_k)) (NablaGrad nss_q)) dx)
        (Integral (Mul (Mul (Div (Lit 1) D) (Div_ufl (Function Fn_nss_u_new))) nss_q) dx)"

definition a3_form :: expr where
  "a3_form = Integral (Dot nss_u nss_v) dx"

definition L3_form :: "expr \<Rightarrow> expr" where
  "L3_form D =
    Sub (Integral (Dot (Function Fn_nss_u_new) nss_v) dx)
        (Integral (Mul D (Dot (NablaGrad (Sub (Function Fn_nss_p_new) (Function Fn_nss_p_k)))
           nss_v)) dx)"

subsection \<open>The finite-element library\<close>

text \<open>
  The library is external. Its calls are functions of what they read: assembly reads a
  form and the current degrees of freedom of the \<open>Function\<close> objects in it, a
  boundary condition rewrites the tensor it is applied to, the Krylov solver reads matrix,
  initial guess, right-hand side, method and preconditioner and returns the new degrees of
  freedom of its second argument, and \<open>solve(F == 0, u)\<close> returns the new degrees of
  freedom of \<open>u\<close>. \<open>'m\<close> is the type of matrices, \<open>'v\<close> of vectors.
\<close>

record ('m, 'v) fem =
  assemble_matrix :: "expr \<Rightarrow> (fn \<Rightarrow> 'v) \<Rightarrow> 'm"
  assemble_vector :: "expr \<Rightarrow> (fn \<Rightarrow> 'v) \<Rightarrow> 'v"
  bc_apply_matrix :: "bc \<Rightarrow> 'm \<Rightarrow> 'm"
  bc_apply_vector :: "bc \<Rightarrow> 'v \<Rightarrow> 'v"
  krylov_solve :: "'m \<Rightarrow> 'v \<Rightarrow> 'v \<Rightarrow> string \<Rightarrow> string \<Rightarrow> 'v"
  newton_solve :: "expr \<Rightarrow> (fn \<Rightarrow> 'v) \<Rightarrow> fn \<Rightarrow> 'v"
  new_function :: "space \<Rightarrow> 'v"
  sub_function :: "'v \<Rightarrow> nat \<Rightarrow> 'v"

text \<open>
  The library calls that the program makes, in the order it makes them. A tensor is named
  by the form it was assembled from, a \<open>Function\<close> by its object.
\<close>

datatype event =
    Assemble expr
  | BCApply bc expr
  | LinSolve expr fn expr string string
  | Assign fn fn
  | NLSolve expr fn
  | FileWrite string nat
  | PrintMax
  | ProgressUpdate

subsection \<open>Program state\<close>

record 'm NavierStokesSolver =
  bcu :: "bc list"
  bcp :: "bc list"
  DT :: expr
  u_mid :: expr
  F1 :: expr
  a1 :: expr
  L1 :: expr
  A1 :: 'm
  a2 :: expr
  L2 :: expr
  A2 :: 'm
  a3 :: expr
  L3 :: expr
  A3 :: 'm

datatype pyval = PyExpr expr | PyInt nat

text \<open>
  \<open>var_k\<close>, \<open>var_t\<close> and \<open>var_F\<close> are the Python globals \<open>k\<close>, \<open>t\<close> and
  \<open>F\<close>; a file is the list of the samples written to it.
\<close>

record ('m, 'v) state =
  store :: "fn \<Rightarrow> 'v"
  nss :: "'m NavierStokesSolver"
  var_k :: pyval
  var_t :: rat
  var_F :: expr
  vtkfile_u_1 :: "('v \<times> rat) list"
  vtkfile_u_2 :: "('v \<times> rat) list"
  vtkfile_u_3 :: "('v \<times> rat) list"
  trace :: "event list"

subsection \<open>Library calls on the state\<close>

definition log :: "event list \<Rightarrow> ('m, 'v) state \<Rightarrow> ('m, 'v) state" where
  "log es st = st\<lparr>trace := trace st @ es\<rparr>"

text \<open>\<open>b = assemble(L)\<close> followed by \<open>[bc.apply(b) for bc in bcs]\<close>.\<close>

definition assemble_rhs ::
  "('m, 'v) fem \<Rightarrow> expr \<Rightarrow> bc list \<Rightarrow> ('m, 'v) state \<Rightarrow> 'v \<times> ('m, 'v) state" where
  "assemble_rhs lib L bcs st =
     (fold (bc_apply_vector lib) bcs (assemble_vector lib L (store st)),
      log (Assemble L # map (\<lambda>b. BCApply b L) bcs) st)"

text \<open>\<open>solve(A, x.vector(), b, method, pc)\<close>: the solution overwrites \<open>x\<close>.\<close>

definition linear_solve ::
  "('m, 'v) fem \<Rightarrow> 'm \<Rightarrow> expr \<Rightarrow> fn \<Rightarrow> 'v \<Rightarrow> expr \<Rightarrow> string \<Rightarrow> string \<Rightarrow>
   ('m, 'v) state \<Rightarrow> ('m, 'v) state" where
  "linear_solve lib A a x b L method pc st =
     log [LinSolve a x L method pc]
       (st\<lparr>store := (store st)(x := krylov_solve lib A (store st x) b method pc)\<rparr>)"

text \<open>\<open>dst.assign(src)\<close> copies the degrees of freedom.\<close>

definition assign :: "fn \<Rightarrow> fn \<Rightarrow> ('m, 'v) state \<Rightarrow> ('m, 'v) state" where
  "assign dst src st = log [Assign dst src] (st\<lparr>store := (store st)(dst := store st src)\<rparr>)"

text \<open>\<open>solve(F == 0, u)\<close>.\<close>

definition nonlinear_solve :: "('m, 'v) fem \<Rightarrow> ('m, 'v) state \<Rightarrow> ('m, 'v) state" where
  "nonlinear_solve lib st =
     log [NLSolve (var_F st) Fn_u]
       (st\<lparr>store := (store st)(Fn_u := newton_solve lib (var_F st) (store st) Fn_u)\<rparr>)"

subsection \<open>NavierStokesSolver.__init__ and advance\<close>

definition NavierStokesSolver_init ::
  "('m, 'v) fem \<Rightarrow> rat \<Rightarrow> (fn \<Rightarrow> 'v) \<Rightarrow> 'm NavierStokesSolver \<times> event list" where
  "NavierStokesSolver_init lib d sto =
     (let bcu' = [bcu_inflow, bcu_walls, bcu_cylinder];
          bcp' = [bcp_outflow];
          DT' = Constant d;
          F1' = F1_form DT';
          a1' = Lhs F1';
          L1' = Rhs F1';
          A1' = fold (bc_apply_matrix lib) bcu' (assemble_matrix lib a1' sto);
          a2' = a2_form;
          L2' = L2_form DT';
          A2' = fold (bc_apply_matrix lib) bcp' (assemble_matrix lib a2' sto);
          a3' = a3_form;
          L3' = L3_form DT';
          A3' = assemble_matrix lib a3' sto
      in (\<lparr>bcu = bcu', bcp = bcp', DT = DT', u_mid = u_mid_form,
            F1 = F1', a1 = a1', L1 = L1', A1 = A1',
            a2 = a2', L2 = L2', A2 = A2',
            a3 = a3', L3 = L3', A3 = A3'\<rparr>,
          Assemble a1' # map (\<lambda>b. BCApply b a1') bcu'
            @ Assemble a2' # map (\<lambda>b. BCApply b a2') bcp'
            @ [Assemble a3']))"

definition step1 :: "('m, 'v) fem \<Rightarrow> ('m, 'v) state \<Rightarrow> ('m, 'v) state" where
  "step1 lib st =
     (let (b1, st1) = assemble_rhs lib (L1 (nss st)) (bcu (nss st)) st
      in linear_solve lib (A1 (nss st)) (a1 (nss st)) Fn_nss_u_new b1 (L1 (nss st))
           ''bicgstab'' ''ilu'' st1)"

definition step2 :: "('m, 'v) fem \<Rightarrow> ('m, 'v) state \<Rightarrow> ('m, 'v) state" where
  "step2 lib st =
     (let (b2, st1) = assemble_rhs lib (L2 (nss st)) (bcp (nss st)) st
      in linear_solve lib (A2 (nss st)) (a2 (nss st)) Fn_nss_p_new b2 (L2 (nss st))
           ''bicgstab'' ''ilu'' st1)"

definition step3 :: "('m, 'v) fem \<Rightarrow> ('m, 'v) state \<Rightarrow> ('m, 'v) state" where
  "step3 lib st =
     (let (b3, st1) = assemble_rhs lib (L3 (nss st)) [] st
      in linear_solve lib (A3 (nss st)) (a3 (nss st)) Fn_nss_u_new b3 (L3 (nss st))
           ''cg'' ''sor'' st1)"

definition advance :: "('m, 'v) fem \<Rightarrow> ('m, 'v) state \<Rightarrow> ('m, 'v) state" where
  "advance lib st =
     assign Fn_nss_p_k Fn_nss_p_new
       (assign Fn_nss_u_k Fn_nss_u_new (step3 lib (step2 lib (step1 lib st))))"

subsection \<open>The script: set-up and time-stepping loop (lines 392 to 444)\<close>

definition out_interval :: rat where
  "out_interval = of_nat num_steps / 100"

text \<open>
  Python's \<open>%\<close> on floats, for a non-zero divisor: the result has the sign of the
  divisor. (\<open>out_interval\<close> is 5.0, so the zero-divisor error is not reachable; on the
  integers below 500 and on 5.0 the float operation is exact.)
\<close>

definition py_mod :: "rat \<Rightarrow> rat \<Rightarrow> rat" where
  "py_mod x y = x - y * of_int \<lfloor>x / y\<rfloor>"

definition output_cond :: "nat \<Rightarrow> bool" where
  "output_cond i \<longleftrightarrow> py_mod (of_nat i) out_interval = 0 \<or> i = num_steps"

definition write_output :: "('m, 'v) fem \<Rightarrow> ('m, 'v) state \<Rightarrow> ('m, 'v) state" where
  "write_output lib st =
     log [FileWrite ''reaction_system/u_1.pvd'' 1, FileWrite ''reaction_system/u_2.pvd'' 2,
          FileWrite ''reaction_system/u_3.pvd'' 3, PrintMax]
       (st\<lparr>vtkfile_u_1 := vtkfile_u_1 st @ [(sub_function lib (store st Fn_u) 1, var_t st)],
           vtkfile_u_2 := vtkfile_u_2 st @ [(sub_function lib (store st Fn_u) 2, var_t st)],
           vtkfile_u_3 := vtkfile_u_3 st @ [(sub_function lib (store st Fn_u) 3, var_t st)]\<rparr>)"

text \<open>One pass through the body of \<open>for k in range(num_steps)\<close>, with \<open>k = i\<close>.\<close>

definition loop_body :: "('m, 'v) fem \<Rightarrow> nat \<Rightarrow> ('m, 'v) state \<Rightarrow> ('m, 'v) state" where
  "loop_body lib i st =
     (let s0 = st\<lparr>var_k := PyInt i\<rparr>;
          s1 = s0\<lparr>var_t := var_t s0 + dt\<rparr>;
          s2 = advance lib s1;
          s3 = assign Fn_w Fn_nss_u_k s2;
          s4 = nonlinear_solve lib s3;
          s5 = (if output_cond i then write_output lib s4 else s4);
          s6 = assign Fn_u_n Fn_u s5
      in log [ProgressUpdate] s6)"

fun time_loop :: "('m, 'v) fem \<Rightarrow> nat list \<Rightarrow> ('m, 'v) state \<Rightarrow> ('m, 'v) state" where
  "time_loop lib [] st = st"
| "time_loop lib (i # ks) st = time_loop lib ks (loop_body lib i st)"

text \<open>
  The state when the loop is entered: every \<open>Function\<close> holds the degrees of freedom
  that its constructor gave it, \<open>k\<close> is \<open>Constant(dt)\<close>, \<open>F\<close> has been built from it,
  \<open>t = 0\<close>, the files are empty and the solver object has been constructed.
\<close>

definition initial_state :: "('m, 'v) fem \<Rightarrow> ('m, 'v) state" where
  "initial_state lib =
     (let sto = (\<lambda>g. new_function lib (fn_space g));
          kk = k_const;
          FF = F_form kk K_const eps_const;
          (obj, es) = NavierStokesSolver_init lib dt sto
      in \<lparr>store = sto, nss = obj, var_k = PyExpr kk, var_t = 0, var_F = FF,
          vtkfile_u_1 = [], vtkfile_u_2 = [], vtkfile_u_3 = [], trace = es\<rparr>)"

definition main :: "('m, 'v) fem \<Rightarrow> ('m, 'v) state" where
  "main lib = time_loop lib [0..<num_steps] (initial_state lib)"

text \<open>The state after the first \<open>n\<close> passes through the loop body.\<close>

definition after_steps :: "('m, 'v) fem \<Rightarrow> nat \<Rightarrow> ('m, 'v) state" where
  "after_steps lib n = time_loop lib [0..<n] (initial_state lib)"

text \<open>
  A concrete library for running the model on examples: matrices and vectors are single
  numbers, every boundary condition adds one to the tensor it is applied to, and a solve
  returns one more than the sum of what it reads.
\<close>

definition counting_fem :: "(nat, nat) fem" where
  "counting_fem =
     \<lparr>assemble_matrix = (\<lambda>a sto. 0), assemble_vector = (\<lambda>L sto. 0),
      bc_apply_matrix = (\<lambda>b A. Suc A), bc_apply_vector = (\<lambda>b x. Suc x),
      krylov_solve = (\<lambda>A x b method pc. Suc (A + x + b)),
      newton_solve = (\<lambda>FF sto g. Suc (sto g)),
      new_function = (\<lambda>s. 0), sub_function = (\<lambda>x i. x)\<rparr>"

subsection \<open>Reading forms and traces\<close>

text \<open>
  A form is a signed sum of integrals: \<open>integrals\<close> lists them in the order written,
  with \<open>True\<close> for a term that is added and \<open>False\<close> for one that is subtracted.
\<close>

fun integrals :: "expr \<Rightarrow> (bool \<times> expr) list" where
  "integrals (Add a b) = integrals a @ integrals b"
| "integrals (Sub a b) = integrals a @ map (\<lambda>(sg, e). (\<not> sg, e)) (integrals b)"
| "integrals (Integral e m) = [(True, Integral e m)]"
| "integrals e = []"

text \<open>\<open>occurs x e\<close>: the expression \<open>x\<close> is a subterm of \<open>e\<close>.\<close>

fun occurs :: "expr \<Rightarrow> expr \<Rightarrow> bool" where
  "occurs x (Split e i) = (x = Split e i \<or> occurs x e)"
| "occurs x (Add a b) = (x = Add a b \<or> occurs x a \<or> occurs x b)"
| "occurs x (Sub a b) = (x = Sub a b \<or> occurs x a \<or> occurs x b)"
| "occurs x (Mul a b) = (x = Mul a b \<or> occurs x a \<or> occurs x b)"
| "occurs x (Div a b) = (x = Div a b \<or> occurs x a \<or> occurs x b)"
| "occurs x (Dot a b) = (x = Dot a b \<or> occurs x a \<or> occurs x b)"
| "occurs x (Inner a b) = (x = Inner a b \<or> occurs x a \<or> occurs x b)"
| "occurs x (Grad e) = (x = Grad e \<or> occurs x e)"
| "occurs x (NablaGrad e) = (x = NablaGrad e \<or> occurs x e)"
| "occurs x (Div_ufl e) = (x = Div_ufl e \<or> occurs x e)"
| "occurs x (Sym e) = (x = Sym e \<or> occurs x e)"
| "occurs x (Integral e m) = (x = Integral e m \<or> occurs x e)"
| "occurs x (Lhs e) = (x = Lhs e \<or> occurs x e)"
| "occurs x (Rhs e) = (x = Rhs e \<or> occurs x e)"
| "occurs x e = (x = e)"

text \<open>
  The degree of an expression as a polynomial in the trial function (the unknown of a
  linear substep). A quotient counts the degrees of both sides, so a divisor that
  depends on the unknown is never read as linear.
\<close>

fun trial_degree :: "expr \<Rightarrow> nat" where
  "trial_degree (TrialFunction s) = 1"
| "trial_degree (Split e i) = trial_degree e"
| "trial_degree (Add a b) = max (trial_degree a) (trial_degree b)"
| "trial_degree (Sub a b) = max (trial_degree a) (trial_degree b)"
| "trial_degree (Mul a b) = trial_degree a + trial_degree b"
| "trial_degree (Div a b) = trial_degree a + trial_degree b"
| "trial_degree (Dot a b) = trial_degree a + trial_degree b"
| "trial_degree (Inner a b) = trial_degree a + trial_degree b"
| "trial_degree (Grad e) = trial_degree e"
| "trial_degree (NablaGrad e) = trial_degree e"
| "trial_degree (Div_ufl e) = trial_degree e"
| "trial_degree (Sym e) = trial_degree e"
| "trial_degree (Integral e m) = trial_degree e"
| "trial_degree (Lhs e) = trial_degree e"
| "trial_degree (Rhs e) = trial_degree e"
| "trial_degree e = 0"

text \<open>
  The concentration unknowns (components of \<open>u\<close>) and the test functions that occur in
  an expression. A term couples two species when it holds the unknown of one against the
  test function of another.
\<close>

fun unknowns :: "expr \<Rightarrow> nat list" where
  "unknowns (Split e i) = (if e = Function Fn_u then [i] else unknowns e)"
| "unknowns (Add a b) = unknowns a @ unknowns b"
| "unknowns (Sub a b) = unknowns a @ unknowns b"
| "unknowns (Mul a b) = unknowns a @ unknowns b"
| "unknowns (Div a b) = unknowns a @ unknowns b"
| "unknowns (Dot a b) = unknowns a @ unknowns b"
| "unknowns (Inner a b) = unknowns a @ unknowns b"
| "unknowns (Grad e) = unknowns e"
| "unknowns (NablaGrad e) = unknowns e"
| "unknowns (Div_ufl e) = unknowns e"
| "unknowns (Sym e) = unknowns e"
| "unknowns (Integral e m) = unknowns e"
| "unknowns (Lhs e) = unknowns e"
| "unknowns (Rhs e) = unknowns e"
| "unknowns e = []"

fun tests :: "expr \<Rightarrow> nat list" where
  "tests (TestFunctions s i) = [i]"
| "tests (Split e i) = tests e"
| "tests (Add a b) = tests a @ tests b"
| "tests (Sub a b) = tests a @ tests b"
| "tests (Mul a b) = tests a @ tests b"
| "tests (Div a b) = tests a @ tests b"
| "tests (Dot a b) = tests a @ tests b"
| "tests (Inner a b) = tests a @ tests b"
| "tests (Grad e) = tests e"
| "tests (NablaGrad e) = tests e"
| "tests (Div_ufl e) = tests e"
| "tests (Sym e) = tests e"
| "tests (Integral e m) = tests e"
| "tests (Lhs e) = tests e"
| "tests (Rhs e) = tests e"
| "tests e = []"

definition couples :: "expr \<Rightarrow> bool" where
  "couples e \<longleftrightarrow> list_ex (\<lambda>j. list_ex (\<lambda>i. i \<noteq> j) (tests e)) (unknowns e)"

fun is_LinSolve :: "event \<Rightarrow> bool" where
  "is_LinSolve (LinSolve a x L method pc) = True"
| "is_LinSolve e = False"

fun is_NLSolve :: "event \<Rightarrow> bool" where
  "is_NLSolve (NLSolve FF x) = True"
| "is_NLSolve e = False"

fun is_Assign :: "event \<Rightarrow> bool" where
  "is_Assign (Assign d s) = True"
| "is_Assign e = False"

fun is_BCApply :: "event \<Rightarrow> bool" where
  "is_BCApply (BCApply b L) = True"
| "is_BCApply e = False"

fun is_FileWrite :: "event \<Rightarrow> bool" where
  "is_FileWrite (FileWrite name i) = True"
| "is_FileWrite e = False"

text \<open>The library calls made between two states of one run.\<close>

definition new_events :: "('m, 'v) state \<Rightarrow> ('m, 'v) state \<Rightarrow> event list" where
  "new_events st st' = drop (length (trace st)) (trace st')"

text \<open>
  The events of the substep whose right-hand side is assembled from \<open>L\<close>: from
  \<open>assemble(L)\<close> up to, not including, the solve that takes the assembled vector.
  The substep applies boundary data before its solve when a \<open>bc.apply\<close> on that vector
  is among them.
\<close>

fun solves_with :: "expr \<Rightarrow> event \<Rightarrow> bool" where
  "solves_with L (LinSolve a x L' method pc) = (L' = L)"
| "solves_with L e = False"

fun applies_to :: "expr \<Rightarrow> event \<Rightarrow> bool" where
  "applies_to L (BCApply b L') = (L' = L)"
| "applies_to L e = False"

definition substep_events :: "event list \<Rightarrow> expr \<Rightarrow> event list" where
  "substep_events es L =
     takeWhile (\<lambda>e. \<not> solves_with L e) (dropWhile (\<lambda>e. e \<noteq> Assemble L) es)"

definition applies_bc_before_solve :: "event list \<Rightarrow> expr \<Rightarrow> bool" where
  "applies_bc_before_solve es L \<longleftrightarrow> list_ex (applies_to L) (substep_events es L)"

text \<open>The library calls of one substep, of one call of \<open>advance\<close>, of one iteration.\<close>

definition step1_events :: "'m NavierStokesSolver \<Rightarrow> event list" where
  "step1_events self =
     Assemble (L1 self) # map (\<lambda>b. BCApply b (L1 self)) (bcu self)
       @ [LinSolve (a1 self) Fn_nss_u_new (L1 self) ''bicgstab'' ''ilu'']"

definition step2_events :: "'m NavierStokesSolver \<Rightarrow> event list" where
  "step2_events self =
     Assemble (L2 self) # map (\<lambda>b. BCApply b (L2 self)) (bcp self)
       @ [LinSolve (a2 self) Fn_nss_p_new (L2 self) ''bicgstab'' ''ilu'']"

definition step3_events :: "'m NavierStokesSolver \<Rightarrow> event list" where
  "step3_events self =
     [Assemble (L3 self), LinSolve (a3 self) Fn_nss_u_new (L3 self) ''cg'' ''sor'']"

definition advance_events :: "'m NavierStokesSolver \<Rightarrow> event list" where
  "advance_events self =
     step1_events self @ step2_events self @ step3_events self
       @ [Assign Fn_nss_u_k Fn_nss_u_new, Assign Fn_nss_p_k Fn_nss_p_new]"

definition output_events :: "nat \<Rightarrow> event list" where
  "output_events i =
     (if output_cond i
      then [FileWrite ''reaction_system/u_1.pvd'' 1, FileWrite ''reaction_system/u_2.pvd'' 2,
            FileWrite ''reaction_system/u_3.pvd'' 3, PrintMax]
      else [])"

definition iteration_events :: "'m NavierStokesSolver \<Rightarrow> expr \<Rightarrow> nat \<Rightarrow> event list" where
  "iteration_events self FF i =
     advance_events self @ [Assign Fn_w Fn_nss_u_k, NLSolve FF Fn_u] @ output_events i
       @ [Assign Fn_u_n Fn_u, ProgressUpdate]"

text \<open>
  The terms that the specification gives the residual: for each species the
  backward-Euler difference quotient, advection by \<open>w\<close> and diffusion with the one
  diffusivity; the reaction terms with the one rate; the source terms.
\<close>

definition transport_terms :: "expr \<Rightarrow> expr \<Rightarrow> nat \<Rightarrow> (bool \<times> expr) list" where
  "transport_terms kk ee i =
     [(True, Integral (Mul (Div (Sub (u_comp i) (u_n_comp i)) kk) (v_comp i)) dx),
      (True, Integral (Mul (Dot (Function Fn_w) (Grad (u_comp i))) (v_comp i)) dx),
      (True, Integral (Mul ee (Dot (Grad (u_comp i)) (Grad (v_comp i)))) dx)]"

definition reaction_terms :: "expr \<Rightarrow> (bool \<times> expr) list" where
  "reaction_terms KK =
     [(True, Integral (Mul (Mul (Mul KK (u_comp 1)) (u_comp 2)) (v_comp 1)) dx),
      (True, Integral (Mul (Mul (Mul KK (u_comp 1)) (u_comp 2)) (v_comp 2)) dx),
      (False, Integral (Mul (Mul (Mul KK (u_comp 1)) (u_comp 2)) (v_comp 3)) dx),
      (True, Integral (Mul (Mul KK (u_comp 3)) (v_comp 3)) dx)]"

definition source_terms :: "(bool \<times> expr) list" where
  "source_terms =
     [(False, Integral (Mul f_1 (v_comp 1)) dx), (False, Integral (Mul f_2 (v_comp 2)) dx),
      (False, Integral (Mul f_3 (v_comp 3)) dx)]"

subsection \<open>Effects of the operations on the state\<close>

lemma log_simps [simp]:
  "trace (log es st) = trace st @ es"
  "store (log es st) = store st"
  "nss (log es st) = nss st"
  "var_k (log es st) = var_k st"
  "var_t (log es st) = var_t st"
  "var_F (log es st) = var_F st"
  "vtkfile_u_1 (log es st) = vtkfile_u_1 st"
  "vtkfile_u_2 (log es st) = vtkfile_u_2 st"
  "vtkfile_u_3 (log es st) = vtkfile_u_3 st"
  by (simp_all add: log_def)

lemma assemble_rhs_snd [simp]:
  "snd (assemble_rhs lib L bcs st) = log (Assemble L # map (\<lambda>b. BCApply b L) bcs) st"
  by (simp add: assemble_rhs_def)

lemma linear_solve_simps [simp]:
  "trace (linear_solve lib A a x b L m pc st) = trace st @ [LinSolve a x L m pc]"
  "nss (linear_solve lib A a x b L m pc st) = nss st"
  "var_k (linear_solve lib A a x b L m pc st) = var_k st"
  "var_t (linear_solve lib A a x b L m pc st) = var_t st"
  "var_F (linear_solve lib A a x b L m pc st) = var_F st"
  "vtkfile_u_1 (linear_solve lib A a x b L m pc st) = vtkfile_u_1 st"
  "vtkfile_u_2 (linear_solve lib A a x b L m pc st) = vtkfile_u_2 st"
  "vtkfile_u_3 (linear_solve lib A a x b L m pc st) = vtkfile_u_3 st"
  by (simp_all add: linear_solve_def)

lemma linear_solve_store:
  "store (linear_solve lib A a x b L m pc st) y =
     (if y = x then krylov_solve lib A (store st x) b m pc else store st y)"
  by (simp add: linear_solve_def)

lemma assign_simps [simp]:
  "trace (assign d s st) = trace st @ [Assign d s]"
  "nss (assign d s st) = nss st"
  "var_k (assign d s st) = var_k st"
  "var_t (assign d s st) = var_t st"
  "var_F (assign d s st) = var_F st"
  "vtkfile_u_1 (assign d s st) = vtkfile_u_1 st"
  "vtkfile_u_2 (assign d s st) = vtkfile_u_2 st"
  "vtkfile_u_3 (assign d s st) = vtkfile_u_3 st"
  by (simp_all add: assign_def)

lemma assign_store:
  "store (assign d s st) y = (if y = d then store st s else store st y)"
  by (simp add: assign_def)

lemma nonlinear_solve_simps [simp]:
  "trace (nonlinear_solve lib st) = trace st @ [NLSolve (var_F st) Fn_u]"
  "nss (nonlinear_solve lib st) = nss st"
  "var_k (nonlinear_solve lib st) = var_k st"
  "var_t (nonlinear_solve lib st) = var_t st"
  "var_F (nonlinear_solve lib st) = var_F st"
  "vtkfile_u_1 (nonlinear_solve lib st) = vtkfile_u_1 st"
  "vtkfile_u_2 (nonlinear_solve lib st) = vtkfile_u_2 st"
  "vtkfile_u_3 (nonlinear_solve lib st) = vtkfile_u_3 st"
  by (simp_all add: nonlinear_solve_def)

lemma nonlinear_solve_store:
  "store (nonlinear_solve lib st) y =
     (if y = Fn_u then newton_solve lib (var_F st) (store st) Fn_u else store st y)"
  by (simp add: nonlinear_solve_def)

lemma step1_simps [simp]:
  "trace (step1 lib st) = trace st @ step1_events (nss st)"
  "nss (step1 lib st) = nss st"
  "var_k (step1 lib st) = var_k st"
  "var_t (step1 lib st) = var_t st"
  "var_F (step1 lib st) = var_F st"
  "vtkfile_u_1 (step1 lib st) = vtkfile_u_1 st"
  "vtkfile_u_2 (step1 lib st) = vtkfile_u_2 st"
  "vtkfile_u_3 (step1 lib st) = vtkfile_u_3 st"
  by (simp_all add: step1_def step1_events_def split_beta)

lemma step2_simps [simp]:
  "trace (step2 lib st) = trace st @ step2_events (nss st)"
  "nss (step2 lib st) = nss st"
  "var_k (step2 lib st) = var_k st"
  "var_t (step2 lib st) = var_t st"
  "var_F (step2 lib st) = var_F st"
  "vtkfile_u_1 (step2 lib st) = vtkfile_u_1 st"
  "vtkfile_u_2 (step2 lib st) = vtkfile_u_2 st"
  "vtkfile_u_3 (step2 lib st) = vtkfile_u_3 st"
  by (simp_all add: step2_def step2_events_def split_beta)

lemma step3_simps [simp]:
  "trace (step3 lib st) = trace st @ step3_events (nss st)"
  "nss (step3 lib st) = nss st"
  "var_k (step3 lib st) = var_k st"
  "var_t (step3 lib st) = var_t st"
  "var_F (step3 lib st) = var_F st"
  "vtkfile_u_1 (step3 lib st) = vtkfile_u_1 st"
  "vtkfile_u_2 (step3 lib st) = vtkfile_u_2 st"
  "vtkfile_u_3 (step3 lib st) = vtkfile_u_3 st"
  by (simp_all add: step3_def step3_events_def split_beta)

lemma advance_simps [simp]:
  "trace (advance lib st) = trace st @ advance_events (nss st)"
  "nss (advance lib st) = nss st"
  "var_k (advance lib st) = var_k st"
  "var_t (advance lib st) = var_t st"
  "var_F (advance lib st) = var_F st"
  "vtkfile_u_1 (advance lib st) = vtkfile_u_1 st"
  "vtkfile_u_2 (advance lib st) = vtkfile_u_2 st"
  "vtkfile_u_3 (advance lib st) = vtkfile_u_3 st"
  by (simp_all add: advance_def advance_events_def)

lemma write_output_simps [simp]:
  "trace (write_output lib st) = trace st @
     [FileWrite ''reaction_system/u_1.pvd'' 1, FileWrite ''reaction_system/u_2.pvd'' 2,
      FileWrite ''reaction_system/u_3.pvd'' 3, PrintMax]"
  "nss (write_output lib st) = nss st"
  "store (write_output lib st) = store st"
  "var_k (write_output lib st) = var_k st"
  "var_t (write_output lib st) = var_t st"
  "var_F (write_output lib st) = var_F st"
  by (simp_all add: write_output_def)

lemma loop_body_simps [simp]:
  "trace (loop_body lib i st) = trace st @ iteration_events (nss st) (var_F st) i"
  "nss (loop_body lib i st) = nss st"
  "var_k (loop_body lib i st) = PyInt i"
  "var_t (loop_body lib i st) = var_t st + dt"
  "var_F (loop_body lib i st) = var_F st"
  by (simp_all add: loop_body_def Let_def iteration_events_def output_events_def)

lemma time_loop_nss [simp]: "nss (time_loop lib ks st) = nss st"
  by (induction ks arbitrary: st) simp_all

lemma time_loop_var_F [simp]: "var_F (time_loop lib ks st) = var_F st"
  by (induction ks arbitrary: st) simp_all

lemma time_loop_trace:
  "trace (time_loop lib ks st) =
     trace st @ concat (map (iteration_events (nss st) (var_F st)) ks)"
  by (induction ks arbitrary: st) simp_all


lemma initial_state_simps [simp]:
  "var_F (initial_state lib) = F_form k_const K_const eps_const"
  "var_k (initial_state lib) = PyExpr k_const"
  "var_t (initial_state lib) = 0"
  "nss (initial_state lib) =
     fst (NavierStokesSolver_init lib dt (\<lambda>g. new_function lib (fn_space g)))"
  "vtkfile_u_1 (initial_state lib) = []"
  "vtkfile_u_2 (initial_state lib) = []"
  "vtkfile_u_3 (initial_state lib) = []"
  by (simp_all add: initial_state_def Let_def split_beta)

lemma init_forms [simp]:
  "L1 (fst (NavierStokesSolver_init lib d sto)) = Rhs (F1_form (Constant d))"
  "L2 (fst (NavierStokesSolver_init lib d sto)) = L2_form (Constant d)"
  "L3 (fst (NavierStokesSolver_init lib d sto)) = L3_form (Constant d)"
  "a1 (fst (NavierStokesSolver_init lib d sto)) = Lhs (F1_form (Constant d))"
  "a2 (fst (NavierStokesSolver_init lib d sto)) = a2_form"
  "a3 (fst (NavierStokesSolver_init lib d sto)) = a3_form"
  "F1 (fst (NavierStokesSolver_init lib d sto)) = F1_form (Constant d)"
  "DT (fst (NavierStokesSolver_init lib d sto)) = Constant d"
  "u_mid (fst (NavierStokesSolver_init lib d sto)) = u_mid_form"
  "bcu (fst (NavierStokesSolver_init lib d sto)) = [bcu_inflow, bcu_walls, bcu_cylinder]"
  "bcp (fst (NavierStokesSolver_init lib d sto)) = [bcp_outflow]"
  by (simp_all add: NavierStokesSolver_init_def Let_def)

lemma after_steps_simps [simp]:
  "nss (after_steps lib n) =
     fst (NavierStokesSolver_init lib dt (\<lambda>g. new_function lib (fn_space g)))"
  "var_F (after_steps lib n) = F_form k_const K_const eps_const"
  by (simp_all add: after_steps_def)

lemma filter_is_LinSolve_advance:
  "filter is_LinSolve (advance_events self) =
     [LinSolve (a1 self) Fn_nss_u_new (L1 self) ''bicgstab'' ''ilu'',
      LinSolve (a2 self) Fn_nss_p_new (L2 self) ''bicgstab'' ''ilu'',
      LinSolve (a3 self) Fn_nss_u_new (L3 self) ''cg'' ''sor'']"
  by (simp add: advance_events_def step1_events_def step2_events_def step3_events_def
      filter_map comp_def)

lemma out_interval_5: "out_interval = 5"
  by (simp add: out_interval_def num_steps_def)

lemma py_mod_5: "py_mod (of_nat i) 5 = of_nat (i mod 5)"
proof -
  have "\<lfloor>(of_nat i :: rat) / of_nat 5\<rfloor> = int (i div 5)"
    by (simp only: floor_divide_of_nat_eq)
  then have f: "\<lfloor>(of_nat i :: rat) / 5\<rfloor> = int (i div 5)" by simp
  have "(of_nat i :: rat) = of_nat (5 * (i div 5) + i mod 5)" by simp
  then have "(of_nat i :: rat) = 5 * of_nat (i div 5) + of_nat (i mod 5)"
    by (simp only: of_nat_add of_nat_mult of_nat_numeral)
  then have e: "(of_nat i :: rat) - 5 * of_nat (i div 5) = of_nat (i mod 5)"
    by linarith
  show ?thesis unfolding py_mod_def f using e by simp
qed

lemma output_cond_iff: "output_cond i \<longleftrightarrow> i mod 5 = 0 \<or> i = 500"
  by (simp add: output_cond_def out_interval_5 py_mod_5 num_steps_def)

lemma upt_five: "[5 * m..<5 * m + 5] = [5 * m, 5 * m + 1, 5 * m + 2, 5 * m + 3, 5 * m + 4]"
proof -
  have "[5 * m..<5 + 5 * m] = map (\<lambda>i. i + 5 * m) [0..<5]"
    by (simp only: map_add_upt)
  also have "[0..<5] = [0, 1, 2, 3, 4::nat]"
    by (simp add: upt_rec)
  finally show ?thesis by (simp add: add.commute)
qed

lemma filter_mod5_upt: "filter (\<lambda>i. i mod 5 = 0) [0..<5 * m] = map (\<lambda>j. 5 * j) [0..<m]"
proof (induction m)
  case 0
  then show ?case by simp
next
  case (Suc m)
  have "[0..<5 * m + 5] = [0..<5 * m] @ [5 * m..<5 * m + 5]"
    by (rule upt_add_eq_append) simp
  moreover have "5 * Suc m = 5 * m + 5" by simp
  ultimately have "[0..<5 * Suc m] =
      [0..<5 * m] @ [5 * m, 5 * m + 1, 5 * m + 2, 5 * m + 3, 5 * m + 4]"
    by (simp only: upt_five)
  moreover have "filter (\<lambda>i. i mod 5 = 0) [5 * m, 5 * m + 1, 5 * m + 2, 5 * m + 3, 5 * m + 4]
      = [5 * m]"
  proof -
    have "(5 * m + 1) mod 5 \<noteq> 0" "(5 * m + 2) mod 5 \<noteq> 0" "(5 * m + 3) mod 5 \<noteq> 0"
      "(5 * m + 4) mod 5 \<noteq> 0"
      by presburger+
    then show ?thesis by simp
  qed
  ultimately show ?case using Suc by simp
qed

lemma filter_output_cond: "filter output_cond [0..<num_steps] = map (\<lambda>j. 5 * j) [0..<100]"
proof -
  have "filter output_cond [0..<500] = filter (\<lambda>i. i mod 5 = 0) [0..<500]"
    by (rule filter_cong) (auto simp: output_cond_iff)
  also have "\<dots> = map (\<lambda>j. 5 * j) [0..<100]"
    using filter_mod5_upt [of 100] by simp
  finally show ?thesis by (simp add: num_steps_def)
qed

lemma write_output_files [simp]:
  "vtkfile_u_1 (write_output lib st) =
     vtkfile_u_1 st @ [(sub_function lib (store st Fn_u) 1, var_t st)]"
  "vtkfile_u_2 (write_output lib st) =
     vtkfile_u_2 st @ [(sub_function lib (store st Fn_u) 2, var_t st)]"
  "vtkfile_u_3 (write_output lib st) =
     vtkfile_u_3 st @ [(sub_function lib (store st Fn_u) 3, var_t st)]"
  by (simp_all add: write_output_def)

lemma loop_body_store_u:
  "store (loop_body lib i st) Fn_u =
     store (nonlinear_solve lib (assign Fn_w Fn_nss_u_k
       (advance lib (st\<lparr>var_k := PyInt i, var_t := var_t st + dt\<rparr>)))) Fn_u"
  by (simp add: loop_body_def Let_def assign_store)

lemma loop_body_files:
  "vtkfile_u_1 (loop_body lib i st) = vtkfile_u_1 st @
     (if output_cond i
      then [(sub_function lib (store (loop_body lib i st) Fn_u) 1, var_t (loop_body lib i st))]
      else [])"
  "vtkfile_u_2 (loop_body lib i st) = vtkfile_u_2 st @
     (if output_cond i
      then [(sub_function lib (store (loop_body lib i st) Fn_u) 2, var_t (loop_body lib i st))]
      else [])"
  "vtkfile_u_3 (loop_body lib i st) = vtkfile_u_3 st @
     (if output_cond i
      then [(sub_function lib (store (loop_body lib i st) Fn_u) 3, var_t (loop_body lib i st))]
      else [])"
  by (simp_all add: loop_body_store_u) (simp_all add: loop_body_def Let_def)

lemma time_loop_file_lengths:
  "length (vtkfile_u_1 (time_loop lib ks st)) =
     length (vtkfile_u_1 st) + length (filter output_cond ks)"
  "length (vtkfile_u_2 (time_loop lib ks st)) =
     length (vtkfile_u_2 st) + length (filter output_cond ks)"
  "length (vtkfile_u_3 (time_loop lib ks st)) =
     length (vtkfile_u_3 st) + length (filter output_cond ks)"
  by (induction ks arbitrary: st) (simp_all add: loop_body_files)

lemma filter_is_FileWrite_iteration:
  "filter is_FileWrite (iteration_events self FF i) =
     (if output_cond i
      then [FileWrite ''reaction_system/u_1.pvd'' 1, FileWrite ''reaction_system/u_2.pvd'' 2,
            FileWrite ''reaction_system/u_3.pvd'' 3]
      else [])"
  by (simp add: iteration_events_def advance_events_def step1_events_def step2_events_def
      step3_events_def output_events_def filter_map comp_def)

lemma forms_distinct [simp]:
  "Rhs X \<noteq> L2_form D" "Rhs X \<noteq> L3_form D" "L2_form D \<noteq> L3_form D'"
  "L2_form D \<noteq> Rhs X" "L3_form D \<noteq> Rhs X" "L3_form D \<noteq> L2_form D'"
  by (simp_all add: L2_form_def L3_form_def)

lemma initial_state_trace:
  "trace (initial_state lib) =
     [Assemble (Lhs (F1_form (Constant dt))),
      BCApply bcu_inflow (Lhs (F1_form (Constant dt))),
      BCApply bcu_walls (Lhs (F1_form (Constant dt))),
      BCApply bcu_cylinder (Lhs (F1_form (Constant dt))),
      Assemble a2_form, BCApply bcp_outflow a2_form, Assemble a3_form]"
  by (simp add: initial_state_def NavierStokesSolver_init_def Let_def)

lemma advance_events_program:
  "advance_events (fst (NavierStokesSolver_init lib d sto)) =
     [Assemble (Rhs (F1_form (Constant d))),
      BCApply bcu_inflow (Rhs (F1_form (Constant d))),
      BCApply bcu_walls (Rhs (F1_form (Constant d))),
      BCApply bcu_cylinder (Rhs (F1_form (Constant d))),
      LinSolve (Lhs (F1_form (Constant d))) Fn_nss_u_new (Rhs (F1_form (Constant d)))
        ''bicgstab'' ''ilu'',
      Assemble (L2_form (Constant d)),
      BCApply bcp_outflow (L2_form (Constant d)),
      LinSolve a2_form Fn_nss_p_new (L2_form (Constant d)) ''bicgstab'' ''ilu'',
      Assemble (L3_form (Constant d)),
      LinSolve a3_form Fn_nss_u_new (L3_form (Constant d)) ''cg'' ''sor'',
      Assign Fn_nss_u_k Fn_nss_u_new, Assign Fn_nss_p_k Fn_nss_p_new]"
  by (simp add: advance_events_def step1_events_def step2_events_def step3_events_def)

lemma applies_bc_program:
  "applies_bc_before_solve (advance_events (fst (NavierStokesSolver_init lib d sto)))
     (Rhs (F1_form (Constant d)))"
  "applies_bc_before_solve (advance_events (fst (NavierStokesSolver_init lib d sto)))
     (L2_form (Constant d))"
  "\<not> applies_bc_before_solve (advance_events (fst (NavierStokesSolver_init lib d sto)))
     (L3_form (Constant d))"
  by (simp_all add: advance_events_program applies_bc_before_solve_def substep_events_def)

lemma store_output [simp]:
  "store (if c then write_output lib s else s) = store s"
  by simp

lemma loop_body_store_nss:
  "store (loop_body lib i st) Fn_w =
     store (advance lib (st\<lparr>var_k := PyInt i, var_t := var_t st + dt\<rparr>)) Fn_nss_u_k"
  "store (loop_body lib i st) Fn_nss_u_k =
     store (advance lib (st\<lparr>var_k := PyInt i, var_t := var_t st + dt\<rparr>)) Fn_nss_u_k"
  "store (loop_body lib i st) Fn_nss_u_new =
     store (advance lib (st\<lparr>var_k := PyInt i, var_t := var_t st + dt\<rparr>)) Fn_nss_u_new"
  "store (loop_body lib i st) Fn_nss_p_k =
     store (advance lib (st\<lparr>var_k := PyInt i, var_t := var_t st + dt\<rparr>)) Fn_nss_p_k"
  "store (loop_body lib i st) Fn_nss_p_new =
     store (advance lib (st\<lparr>var_k := PyInt i, var_t := var_t st + dt\<rparr>)) Fn_nss_p_new"
  by (simp_all add: loop_body_def Let_def assign_store nonlinear_solve_store)

lemma filter_coupling_iteration:
  "filter (\<lambda>e. is_NLSolve e \<or> e = Assign Fn_w Fn_nss_u_k) (iteration_events self FF i) =
     [Assign Fn_w Fn_nss_u_k, NLSolve FF Fn_u]"
  by (simp add: iteration_events_def advance_events_def step1_events_def step2_events_def
      step3_events_def output_events_def filter_map comp_def)

lemma filter_steps_iteration:
  "filter (\<lambda>e. is_LinSolve e \<or> is_NLSolve e \<or> is_Assign e) (iteration_events self FF i) =
     [LinSolve (a1 self) Fn_nss_u_new (L1 self) ''bicgstab'' ''ilu'',
      LinSolve (a2 self) Fn_nss_p_new (L2 self) ''bicgstab'' ''ilu'',
      LinSolve (a3 self) Fn_nss_u_new (L3 self) ''cg'' ''sor'',
      Assign Fn_nss_u_k Fn_nss_u_new, Assign Fn_nss_p_k Fn_nss_p_new,
      Assign Fn_w Fn_nss_u_k, NLSolve FF Fn_u, Assign Fn_u_n Fn_u]"
  by (simp add: iteration_events_def advance_events_def step1_events_def step2_events_def
      step3_events_def output_events_def filter_map comp_def)

lemma filter_is_NLSolve_iteration:
  "filter is_NLSolve (iteration_events self FF i) = [NLSolve FF Fn_u]"
  by (simp add: iteration_events_def advance_events_def step1_events_def step2_events_def
      step3_events_def output_events_def filter_map comp_def)

lemma filter_is_LinSolve_advance_iteration:
  "filter is_LinSolve (iteration_events self FF i) =
     [LinSolve (a1 self) Fn_nss_u_new (L1 self) ''bicgstab'' ''ilu'',
      LinSolve (a2 self) Fn_nss_p_new (L2 self) ''bicgstab'' ''ilu'',
      LinSolve (a3 self) Fn_nss_u_new (L3 self) ''cg'' ''sor'']"
  by (simp add: iteration_events_def advance_events_def step1_events_def step2_events_def
      step3_events_def output_events_def filter_map comp_def)

lemma filter_concat_const:
  assumes "\<And>i. filter P (f i) = c"
  shows "filter P (concat (map f ks)) = concat (replicate (length ks) c)"
  by (induction ks) (simp_all add: assms)

lemma time_loop_new_events:
  "new_events st (time_loop lib ks st) = concat (map (iteration_events (nss st) (var_F st)) ks)"
  by (simp add: new_events_def time_loop_trace)

lemma time_loop_var_k:
  "var_k (time_loop lib (ks @ [i]) st) = PyInt i"
  by (induction ks arbitrary: st) simp_all

lemma time_loop_var_t:
  "var_t (time_loop lib ks st) = var_t st + of_nat (length ks) * dt"
  by (induction ks arbitrary: st) (simp_all add: algebra_simps)

lemma filter_is_BCApply_steps:
  "filter is_BCApply (step1_events self) = map (\<lambda>b. BCApply b (L1 self)) (bcu self)"
  "filter is_BCApply (step2_events self) = map (\<lambda>b. BCApply b (L2 self)) (bcp self)"
  "filter is_BCApply (step3_events self) = []"
  by (simp_all add: step1_events_def step2_events_def step3_events_def filter_map comp_def)

lemma after_steps_Suc: "after_steps lib (Suc n) = loop_body lib n (after_steps lib n)"
proof -
  have "time_loop lib (ks @ [i]) st = loop_body lib i (time_loop lib ks st)" for ks i st
    by (induction ks arbitrary: st) simp_all
  then show ?thesis by (simp add: after_steps_def)
qed

lemma step1_store:
  "store (step1 lib st) =
     (store st)(Fn_nss_u_new :=
        krylov_solve lib (A1 (nss st)) (store st Fn_nss_u_new)
          (fold (bc_apply_vector lib) (bcu (nss st))
             (assemble_vector lib (L1 (nss st)) (store st)))
          ''bicgstab'' ''ilu'')"
  by (simp add: step1_def assemble_rhs_def linear_solve_def split_beta)

lemma step2_store:
  "store (step2 lib st) =
     (store st)(Fn_nss_p_new :=
        krylov_solve lib (A2 (nss st)) (store st Fn_nss_p_new)
          (fold (bc_apply_vector lib) (bcp (nss st))
             (assemble_vector lib (L2 (nss st)) (store st)))
          ''bicgstab'' ''ilu'')"
  by (simp add: step2_def assemble_rhs_def linear_solve_def split_beta)

lemma step3_store:
  "store (step3 lib st) =
     (store st)(Fn_nss_u_new :=
        krylov_solve lib (A3 (nss st)) (store st Fn_nss_u_new)
          (assemble_vector lib (L3 (nss st)) (store st)) ''cg'' ''sor'')"
  by (simp add: step3_def assemble_rhs_def linear_solve_def split_beta)

lemma assign_store_fun: "store (assign d s st) = (store st)(d := store st s)"
  by (simp add: assign_def)

lemma nonlinear_solve_store_fun:
  "store (nonlinear_solve lib st) =
     (store st)(Fn_u := newton_solve lib (var_F st) (store st) Fn_u)"
  by (simp add: nonlinear_solve_def)

lemma advance_store:
  "store (advance lib st) =
     (let self = nss st;
          b1 = fold (bc_apply_vector lib) (bcu self) (assemble_vector lib (L1 self) (store st));
          u_tent = krylov_solve lib (A1 self) (store st Fn_nss_u_new) b1 ''bicgstab'' ''ilu'';
          sto1 = (store st)(Fn_nss_u_new := u_tent);
          b2 = fold (bc_apply_vector lib) (bcp self) (assemble_vector lib (L2 self) sto1);
          p_corr = krylov_solve lib (A2 self) (store st Fn_nss_p_new) b2 ''bicgstab'' ''ilu'';
          sto2 = sto1(Fn_nss_p_new := p_corr);
          b3 = assemble_vector lib (L3 self) sto2;
          u_corr = krylov_solve lib (A3 self) u_tent b3 ''cg'' ''sor''
      in sto2(Fn_nss_u_new := u_corr, Fn_nss_u_k := u_corr, Fn_nss_p_k := p_corr))"
  by (simp add: advance_def assign_store_fun step1_store step2_store step3_store Let_def)

lemma loop_body_store:
  "store (loop_body lib i st) =
     (let self = nss st;
          b1 = fold (bc_apply_vector lib) (bcu self) (assemble_vector lib (L1 self) (store st));
          u_tent = krylov_solve lib (A1 self) (store st Fn_nss_u_new) b1 ''bicgstab'' ''ilu'';
          sto1 = (store st)(Fn_nss_u_new := u_tent);
          b2 = fold (bc_apply_vector lib) (bcp self) (assemble_vector lib (L2 self) sto1);
          p_corr = krylov_solve lib (A2 self) (store st Fn_nss_p_new) b2 ''bicgstab'' ''ilu'';
          sto2 = sto1(Fn_nss_p_new := p_corr);
          b3 = assemble_vector lib (L3 self) sto2;
          u_corr = krylov_solve lib (A3 self) u_tent b3 ''cg'' ''sor'';
          sto3 = sto2(Fn_nss_u_new := u_corr, Fn_nss_u_k := u_corr, Fn_nss_p_k := p_corr,
                      Fn_w := u_corr);
          u_sol = newton_solve lib (var_F st) sto3 Fn_u
      in sto3(Fn_u := u_sol, Fn_u_n := u_sol))"
proof -
  have "store (advance lib (st\<lparr>var_k := PyInt i, var_t := var_t st + dt\<rparr>)) =
      store (advance lib st)"
    by (simp add: advance_store)
  then show ?thesis
    by (simp add: loop_body_def assign_store_fun nonlinear_solve_store_fun advance_store Let_def)
qed


lemma init_matrices:
  "A1 (fst (NavierStokesSolver_init lib d sto)) =
     fold (bc_apply_matrix lib) [bcu_inflow, bcu_walls, bcu_cylinder]
       (assemble_matrix lib (Lhs (F1_form (Constant d))) sto)"
  "A2 (fst (NavierStokesSolver_init lib d sto)) =
     fold (bc_apply_matrix lib) [bcp_outflow] (assemble_matrix lib a2_form sto)"
  "A3 (fst (NavierStokesSolver_init lib d sto)) = assemble_matrix lib a3_form sto"
  by (simp_all add: NavierStokesSolver_init_def Let_def)

lemma after_steps_0: "after_steps lib 0 = initial_state lib"
  by (simp add: after_steps_def)

lemma main_after_steps: "main lib = after_steps lib num_steps"
  by (simp add: main_def after_steps_def)

lemma counting_fem_simps [simp]:
  "assemble_matrix counting_fem a sto = 0"
  "assemble_vector counting_fem L sto = 0"
  "bc_apply_matrix counting_fem b A = Suc A"
  "bc_apply_vector counting_fem b x = Suc x"
  "krylov_solve counting_fem A x y m pc = Suc (A + x + y)"
  "newton_solve counting_fem FF sto g = Suc (sto g)"
  "new_function counting_fem s = 0"
  "sub_function counting_fem x i = x"
  by (simp_all add: counting_fem_def)

lemma initial_state_store: "store (initial_state lib) = (\<lambda>g. new_function lib (fn_space g))"
  by (simp add: initial_state_def Let_def split_beta)

lemma after_steps_files:
  "vtkfile_u_1 (after_steps lib n) =
     map (\<lambda>i. (sub_function lib (store (after_steps lib (Suc i)) Fn_u) 1,
                var_t (after_steps lib (Suc i)))) (filter output_cond [0..<n])"
  "vtkfile_u_2 (after_steps lib n) =
     map (\<lambda>i. (sub_function lib (store (after_steps lib (Suc i)) Fn_u) 2,
                var_t (after_steps lib (Suc i)))) (filter output_cond [0..<n])"
  "vtkfile_u_3 (after_steps lib n) =
     map (\<lambda>i. (sub_function lib (store (after_steps lib (Suc i)) Fn_u) 3,
                var_t (after_steps lib (Suc i)))) (filter output_cond [0..<n])"
proof (induction n)
  case 0
  show "vtkfile_u_1 (after_steps lib 0) =
     map (\<lambda>i. (sub_function lib (store (after_steps lib (Suc i)) Fn_u) 1,
                var_t (after_steps lib (Suc i)))) (filter output_cond [0..<0])"
    by (simp add: after_steps_0)
  show "vtkfile_u_2 (after_steps lib 0) =
     map (\<lambda>i. (sub_function lib (store (after_steps lib (Suc i)) Fn_u) 2,
                var_t (after_steps lib (Suc i)))) (filter output_cond [0..<0])"
    by (simp add: after_steps_0)
  show "vtkfile_u_3 (after_steps lib 0) =
     map (\<lambda>i. (sub_function lib (store (after_steps lib (Suc i)) Fn_u) 3,
                var_t (after_steps lib (Suc i)))) (filter output_cond [0..<0])"
    by (simp add: after_steps_0)
next
  case (Suc n)
  show "vtkfile_u_1 (after_steps lib (Suc n)) =
     map (\<lambda>i. (sub_function lib (store (after_steps lib (Suc i)) Fn_u) 1,
                var_t (after_steps lib (Suc i)))) (filter output_cond [0..<Suc n])"
    using Suc(1) by (simp add: after_steps_Suc [of lib n] loop_body_files)
  show "vtkfile_u_2 (after_steps lib (Suc n)) =
     map (\<lambda>i. (sub_function lib (store (after_steps lib (Suc i)) Fn_u) 2,
                var_t (after_steps lib (Suc i)))) (filter output_cond [0..<Suc n])"
    using Suc(2) by (simp add: after_steps_Suc [of lib n] loop_body_files)
  show "vtkfile_u_3 (after_steps lib (Suc n)) =
     map (\<lambda>i. (sub_function lib (store (after_steps lib (Suc i)) Fn_u) 3,
                var_t (after_steps lib (Suc i)))) (filter output_cond [0..<Suc n])"
    using Suc(3) by (simp add: after_steps_Suc [of lib n] loop_body_files)
qed

lemma main_files:
  "vtkfile_u_1 (main lib) =
     map (\<lambda>j. (sub_function lib (store (after_steps lib (Suc (5 * j))) Fn_u) 1,
                var_t (after_steps lib (Suc (5 * j))))) [0..<100]"
  "vtkfile_u_2 (main lib) =
     map (\<lambda>j. (sub_function lib (store (after_steps lib (Suc (5 * j))) Fn_u) 2,
                var_t (after_steps lib (Suc (5 * j))))) [0..<100]"
  "vtkfile_u_3 (main lib) =
     map (\<lambda>j. (sub_function lib (store (after_steps lib (Suc (5 * j))) Fn_u) 3,
                var_t (after_steps lib (Suc (5 * j))))) [0..<100]"
  by (simp_all only: main_after_steps after_steps_files filter_output_cond map_map comp_def)

lemma indices_in_range:
  "list_all (\<lambda>i. i < num_steps \<and> i \<noteq> num_steps \<and> (output_cond i \<longleftrightarrow> i mod 5 = 0))
     [0..<num_steps]"
  by (auto simp: list_all_iff output_cond_iff num_steps_def)

lemma last_passes_silent:
  "vtkfile_u_1 (after_steps lib 500) = vtkfile_u_1 (after_steps lib 496)"
  "vtkfile_u_2 (after_steps lib 500) = vtkfile_u_2 (after_steps lib 496)"
  "vtkfile_u_3 (after_steps lib 500) = vtkfile_u_3 (after_steps lib 496)"
proof -
  have s: "after_steps lib 500 = loop_body lib 499 (after_steps lib 499)"
    "after_steps lib 499 = loop_body lib 498 (after_steps lib 498)"
    "after_steps lib 498 = loop_body lib 497 (after_steps lib 497)"
    "after_steps lib 497 = loop_body lib 496 (after_steps lib 496)"
    using after_steps_Suc [of lib 499] after_steps_Suc [of lib 498]
      after_steps_Suc [of lib 497] after_steps_Suc [of lib 496]
    by simp_all
  have n: "\<not> output_cond 499" "\<not> output_cond 498" "\<not> output_cond 497" "\<not> output_cond 496"
    by (simp_all add: output_cond_iff)
  show "vtkfile_u_1 (after_steps lib 500) = vtkfile_u_1 (after_steps lib 496)"
    by (simp add: s(1) loop_body_files n) (simp add: s(2) loop_body_files n,
        simp add: s(3) loop_body_files n, simp add: s(4) loop_body_files n)
  show "vtkfile_u_2 (after_steps lib 500) = vtkfile_u_2 (after_steps lib 496)"
    by (simp add: s(1) loop_body_files n) (simp add: s(2) loop_body_files n,
        simp add: s(3) loop_body_files n, simp add: s(4) loop_body_files n)
  show "vtkfile_u_3 (after_steps lib 500) = vtkfile_u_3 (after_steps lib 496)"
    by (simp add: s(1) loop_body_files n) (simp add: s(2) loop_body_files n,
        simp add: s(3) loop_body_files n, simp add: s(4) loop_body_files n)
qed

section \<open>The projection solver\<close>

text \<open>
  Claim C1. Every call of \<open>advance\<close> performs exactly three linear solves, in this
  order, and stores what they return. Step 1 solves with \<open>A1\<close>, bicgstab and ilu for the
  tentative velocity, from the right-hand side \<open>L1\<close> with the conditions \<open>bcu\<close>, and
  stores it in \<open>u_\<close>. Step 2 solves with \<open>A2\<close>, bicgstab and ilu for the pressure,
  from the right-hand side \<open>L2\<close> assembled on the store that holds the tentative
  velocity, with the conditions \<open>bcp\<close>, and stores it in \<open>p_\<close>. Step 3 solves with
  \<open>A3\<close>, cg and sor, starting from the tentative velocity, from the right-hand side
  \<open>L3\<close> assembled on the store that holds the tentative velocity and the new pressure,
  and stores the result in \<open>u_\<close>; then \<open>u_k\<close> and \<open>p_k\<close> receive the new velocity
  and pressure. Nothing else is written and the solver object is unchanged. The library
  calls logged are the three solves with these pairings. In the program, after any number
  of passes, the forms and matrices of the solver object are those of \<open>__init__\<close> with
  \<open>DT = Constant(dt)\<close>; the source of \<open>L2\<close> is the divergence of \<open>u_\<close> and
  \<open>L3\<close> subtracts \<open>DT\<close> times the gradient of the pressure increment.
\<close>

theorem C1_advance_three_solves:
  "store (advance lib st) =
     (let self = nss st;
          b1 = fold (bc_apply_vector lib) (bcu self) (assemble_vector lib (L1 self) (store st));
          u_tent = krylov_solve lib (A1 self) (store st Fn_nss_u_new) b1 ''bicgstab'' ''ilu'';
          sto1 = (store st)(Fn_nss_u_new := u_tent);
          b2 = fold (bc_apply_vector lib) (bcp self) (assemble_vector lib (L2 self) sto1);
          p_corr = krylov_solve lib (A2 self) (store st Fn_nss_p_new) b2 ''bicgstab'' ''ilu'';
          sto2 = sto1(Fn_nss_p_new := p_corr);
          b3 = assemble_vector lib (L3 self) sto2;
          u_corr = krylov_solve lib (A3 self) u_tent b3 ''cg'' ''sor''
      in sto2(Fn_nss_u_new := u_corr, Fn_nss_u_k := u_corr, Fn_nss_p_k := p_corr))
   \<and> nss (advance lib st) = nss st
   \<and> filter is_LinSolve (new_events st (advance lib st)) =
     [LinSolve (a1 (nss st)) Fn_nss_u_new (L1 (nss st)) ''bicgstab'' ''ilu'',
      LinSolve (a2 (nss st)) Fn_nss_p_new (L2 (nss st)) ''bicgstab'' ''ilu'',
      LinSolve (a3 (nss st)) Fn_nss_u_new (L3 (nss st)) ''cg'' ''sor'']
   \<and> a1 (nss (after_steps lib n)) = Lhs (F1_form (Constant dt))
   \<and> L1 (nss (after_steps lib n)) = Rhs (F1_form (Constant dt))
   \<and> a2 (nss (after_steps lib n)) = a2_form
   \<and> L2 (nss (after_steps lib n)) = L2_form (Constant dt)
   \<and> a3 (nss (after_steps lib n)) = a3_form
   \<and> L3 (nss (after_steps lib n)) = L3_form (Constant dt)
   \<and> A1 (nss (after_steps lib n)) =
       fold (bc_apply_matrix lib) [bcu_inflow, bcu_walls, bcu_cylinder]
         (assemble_matrix lib (Lhs (F1_form (Constant dt)))
            (\<lambda>g. new_function lib (fn_space g)))
   \<and> A2 (nss (after_steps lib n)) =
       fold (bc_apply_matrix lib) [bcp_outflow]
         (assemble_matrix lib a2_form (\<lambda>g. new_function lib (fn_space g)))
   \<and> A3 (nss (after_steps lib n)) =
       assemble_matrix lib a3_form (\<lambda>g. new_function lib (fn_space g))
   \<and> integrals (L2_form D) =
       [(True, Integral (Dot (NablaGrad (Function Fn_nss_p_k))
                 (NablaGrad (TestFunction Space_nss_Q))) dx),
        (False, Integral (Mul (Mul (Div (Lit 1) D) (Div_ufl (Function Fn_nss_u_new)))
                  (TestFunction Space_nss_Q)) dx)]
   \<and> integrals (L3_form D) =
       [(True, Integral (Dot (Function Fn_nss_u_new) (TestFunction Space_nss_V)) dx),
        (False, Integral (Mul D (Dot (NablaGrad (Sub (Function Fn_nss_p_new)
                  (Function Fn_nss_p_k))) (TestFunction Space_nss_V))) dx)]"
proof -
  have "filter is_LinSolve (new_events st (advance lib st)) =
     [LinSolve (a1 (nss st)) Fn_nss_u_new (L1 (nss st)) ''bicgstab'' ''ilu'',
      LinSolve (a2 (nss st)) Fn_nss_p_new (L2 (nss st)) ''bicgstab'' ''ilu'',
      LinSolve (a3 (nss st)) Fn_nss_u_new (L3 (nss st)) ''cg'' ''sor'']"
    by (simp add: new_events_def filter_is_LinSolve_advance)
  moreover note advance_store [of lib st]
  ultimately show ?thesis
    by (simp add: L2_form_def L3_form_def nss_q_def nss_v_def init_matrices)
qed

text \<open>
  Claim C2, as stated, asks that each of the three substeps applies Dirichlet data to its
  system before its solve. The third substep does not: between \<open>assemble(self.L3)\<close> and
  the solve with \<open>A3\<close> no boundary condition is applied.
\<close>

theorem C2_counterexample:
  "\<not> applies_bc_before_solve
       (new_events (initial_state counting_fem) (advance counting_fem (initial_state counting_fem)))
       (L3 (nss (initial_state counting_fem)))"
  by (simp add: new_events_def applies_bc_program)

text \<open>
  Claim C2, amended. In every call of \<open>advance\<close> in the program, substep 1 assembles
  its right-hand side and applies the three velocity conditions to it before its solve,
  substep 2 assembles its right-hand side and applies the outflow pressure condition to it
  before its solve, and substep 3 assembles its right-hand side and solves with no
  Dirichlet data applied. The matrices are assembled once, in \<open>__init__\<close>: \<open>A1\<close>
  with the velocity conditions applied, \<open>A2\<close> with the pressure condition, \<open>A3\<close>
  with none. The statement gives the store that the call leaves, the three matrices, the
  library calls of the call in order and those of \<open>__init__\<close>.
\<close>

theorem C2_rhs_boundary_data:
  "store (advance lib (after_steps lib n)) =
     (let st = after_steps lib n;
          b1 = fold (bc_apply_vector lib) [bcu_inflow, bcu_walls, bcu_cylinder]
                 (assemble_vector lib (Rhs (F1_form (Constant dt))) (store st));
          u_tent = krylov_solve lib (A1 (nss st)) (store st Fn_nss_u_new) b1
                     ''bicgstab'' ''ilu'';
          sto1 = (store st)(Fn_nss_u_new := u_tent);
          b2 = fold (bc_apply_vector lib) [bcp_outflow]
                 (assemble_vector lib (L2_form (Constant dt)) sto1);
          p_corr = krylov_solve lib (A2 (nss st)) (store st Fn_nss_p_new) b2
                     ''bicgstab'' ''ilu'';
          sto2 = sto1(Fn_nss_p_new := p_corr);
          b3 = assemble_vector lib (L3_form (Constant dt)) sto2;
          u_corr = krylov_solve lib (A3 (nss st)) u_tent b3 ''cg'' ''sor''
      in sto2(Fn_nss_u_new := u_corr, Fn_nss_u_k := u_corr, Fn_nss_p_k := p_corr))
   \<and> A1 (nss (after_steps lib n)) =
       fold (bc_apply_matrix lib) [bcu_inflow, bcu_walls, bcu_cylinder]
         (assemble_matrix lib (Lhs (F1_form (Constant dt)))
            (\<lambda>g. new_function lib (fn_space g)))
   \<and> A2 (nss (after_steps lib n)) =
       fold (bc_apply_matrix lib) [bcp_outflow]
         (assemble_matrix lib a2_form (\<lambda>g. new_function lib (fn_space g)))
   \<and> A3 (nss (after_steps lib n)) =
       assemble_matrix lib a3_form (\<lambda>g. new_function lib (fn_space g))
   \<and> new_events (after_steps lib n) (advance lib (after_steps lib n)) =
     [Assemble (Rhs (F1_form (Constant dt))),
      BCApply bcu_inflow (Rhs (F1_form (Constant dt))),
      BCApply bcu_walls (Rhs (F1_form (Constant dt))),
      BCApply bcu_cylinder (Rhs (F1_form (Constant dt))),
      LinSolve (Lhs (F1_form (Constant dt))) Fn_nss_u_new (Rhs (F1_form (Constant dt)))
        ''bicgstab'' ''ilu'',
      Assemble (L2_form (Constant dt)),
      BCApply bcp_outflow (L2_form (Constant dt)),
      LinSolve a2_form Fn_nss_p_new (L2_form (Constant dt)) ''bicgstab'' ''ilu'',
      Assemble (L3_form (Constant dt)),
      LinSolve a3_form Fn_nss_u_new (L3_form (Constant dt)) ''cg'' ''sor'',
      Assign Fn_nss_u_k Fn_nss_u_new, Assign Fn_nss_p_k Fn_nss_p_new]
   \<and> applies_bc_before_solve (new_events (after_steps lib n) (advance lib (after_steps lib n)))
       (L1 (nss (after_steps lib n)))
   \<and> applies_bc_before_solve (new_events (after_steps lib n) (advance lib (after_steps lib n)))
       (L2 (nss (after_steps lib n)))
   \<and> \<not> applies_bc_before_solve (new_events (after_steps lib n) (advance lib (after_steps lib n)))
       (L3 (nss (after_steps lib n)))
   \<and> trace (initial_state lib) =
     [Assemble (Lhs (F1_form (Constant dt))),
      BCApply bcu_inflow (Lhs (F1_form (Constant dt))),
      BCApply bcu_walls (Lhs (F1_form (Constant dt))),
      BCApply bcu_cylinder (Lhs (F1_form (Constant dt))),
      Assemble a2_form, BCApply bcp_outflow a2_form, Assemble a3_form]"
proof -
  have a: "store (advance lib (after_steps lib n)) =
     (let st = after_steps lib n;
          b1 = fold (bc_apply_vector lib) [bcu_inflow, bcu_walls, bcu_cylinder]
                 (assemble_vector lib (Rhs (F1_form (Constant dt))) (store st));
          u_tent = krylov_solve lib (A1 (nss st)) (store st Fn_nss_u_new) b1
                     ''bicgstab'' ''ilu'';
          sto1 = (store st)(Fn_nss_u_new := u_tent);
          b2 = fold (bc_apply_vector lib) [bcp_outflow]
                 (assemble_vector lib (L2_form (Constant dt)) sto1);
          p_corr = krylov_solve lib (A2 (nss st)) (store st Fn_nss_p_new) b2
                     ''bicgstab'' ''ilu'';
          sto2 = sto1(Fn_nss_p_new := p_corr);
          b3 = assemble_vector lib (L3_form (Constant dt)) sto2;
          u_corr = krylov_solve lib (A3 (nss st)) u_tent b3 ''cg'' ''sor''
      in sto2(Fn_nss_u_new := u_corr, Fn_nss_u_k := u_corr, Fn_nss_p_k := p_corr))"
    by (simp add: advance_store Let_def)
  have e: "A1 (nss (after_steps lib n)) =
       fold (bc_apply_matrix lib) [bcu_inflow, bcu_walls, bcu_cylinder]
         (assemble_matrix lib (Lhs (F1_form (Constant dt)))
            (\<lambda>g. new_function lib (fn_space g)))"
    "A2 (nss (after_steps lib n)) =
       fold (bc_apply_matrix lib) [bcp_outflow]
         (assemble_matrix lib a2_form (\<lambda>g. new_function lib (fn_space g)))"
    "A3 (nss (after_steps lib n)) =
       assemble_matrix lib a3_form (\<lambda>g. new_function lib (fn_space g))"
    by (simp_all add: init_matrices)
  have c: "applies_bc_before_solve
        (new_events (after_steps lib n) (advance lib (after_steps lib n)))
        (L1 (nss (after_steps lib n)))"
    "applies_bc_before_solve
        (new_events (after_steps lib n) (advance lib (after_steps lib n)))
        (L2 (nss (after_steps lib n)))"
    "\<not> applies_bc_before_solve
        (new_events (after_steps lib n) (advance lib (after_steps lib n)))
        (L3 (nss (after_steps lib n)))"
    by (simp_all add: new_events_def applies_bc_program)
  have d: "new_events (after_steps lib n) (advance lib (after_steps lib n)) =
     [Assemble (Rhs (F1_form (Constant dt))),
      BCApply bcu_inflow (Rhs (F1_form (Constant dt))),
      BCApply bcu_walls (Rhs (F1_form (Constant dt))),
      BCApply bcu_cylinder (Rhs (F1_form (Constant dt))),
      LinSolve (Lhs (F1_form (Constant dt))) Fn_nss_u_new (Rhs (F1_form (Constant dt)))
        ''bicgstab'' ''ilu'',
      Assemble (L2_form (Constant dt)),
      BCApply bcp_outflow (L2_form (Constant dt)),
      LinSolve a2_form Fn_nss_p_new (L2_form (Constant dt)) ''bicgstab'' ''ilu'',
      Assemble (L3_form (Constant dt)),
      LinSolve a3_form Fn_nss_u_new (L3_form (Constant dt)) ''cg'' ''sor'',
      Assign Fn_nss_u_k Fn_nss_u_new, Assign Fn_nss_p_k Fn_nss_p_new]"
    by (simp add: new_events_def advance_events_program)
  show ?thesis
    by (intro conjI a e d c initial_state_trace)
qed


text \<open>
  Claim C4. In \<open>F1\<close> the convective term is
  \<open>rho*dot(dot(u_k, nabla_grad(u_k)), v)*dx\<close>: the previous velocity \<open>u_k\<close> in both
  slots and no trial function, so of degree 0 in the unknown. The stress term is
  \<open>inner(sigma(u_mid, p_k), epsilon(v))*dx\<close> with \<open>u_mid = 0.5*(u_k + u)\<close>. No
  integral of \<open>F1\<close> has degree above 1 in the unknown.
\<close>

theorem C4_tentative_velocity_form:
  "F1 (nss (after_steps lib n)) = F1_form (Constant dt)
   \<and> u_mid (nss (after_steps lib n)) =
       Mul (Lit (1 / 2)) (Add (Function Fn_nss_u_k) (TrialFunction Space_nss_V))
   \<and> integrals (F1_form D) ! 1 =
       (True, Integral (Mul (Lit 1)
          (Dot (Dot (Function Fn_nss_u_k) (NablaGrad (Function Fn_nss_u_k)))
             (TestFunction Space_nss_V))) dx)
   \<and> \<not> occurs (TrialFunction Space_nss_V) (snd (integrals (F1_form D) ! 1))
   \<and> integrals (F1_form D) ! 2 =
       (True, Integral (Inner
          (sigma (Mul (Lit (1 / 2)) (Add (Function Fn_nss_u_k) (TrialFunction Space_nss_V)))
             (Function Fn_nss_p_k))
          (epsilon (TestFunction Space_nss_V))) dx)
   \<and> map (\<lambda>(sg, e). trial_degree e) (integrals (F1_form (Constant d))) = [1, 0, 1, 0, 1, 0]"
  by (simp add: F1_form_def u_mid_form_def nss_u_def nss_v_def nss_n_def nss_f_def rho_def
      sigma_def epsilon_def mu_def)

text \<open>
  Claim C7, as stated, has the velocity substeps use the three velocity conditions. The
  third substep solves for the velocity \<open>u_\<close> and applies none of them: what it stores
  is not what a solve on a right-hand side with \<open>bcu\<close> applied returns, and its
  \<open>bc.apply\<close> calls are not those of \<open>bcu\<close>.
\<close>

theorem C7_counterexample:
  "store (step3 counting_fem (initial_state counting_fem)) Fn_nss_u_new \<noteq>
     krylov_solve counting_fem (A3 (nss (initial_state counting_fem)))
       (store (initial_state counting_fem) Fn_nss_u_new)
       (fold (bc_apply_vector counting_fem) (bcu (nss (initial_state counting_fem)))
          (assemble_vector counting_fem (L3 (nss (initial_state counting_fem)))
             (store (initial_state counting_fem))))
       ''cg'' ''sor''
   \<and> filter is_BCApply
       (new_events (initial_state counting_fem) (step3 counting_fem (initial_state counting_fem)))
     \<noteq> [BCApply bcu_inflow (L3 (nss (initial_state counting_fem))),
         BCApply bcu_walls (L3 (nss (initial_state counting_fem))),
         BCApply bcu_cylinder (L3 (nss (initial_state counting_fem)))]"
  by (simp add: step3_store initial_state_store init_matrices new_events_def
      filter_is_BCApply_steps)

text \<open>
  Claim C7, amended. The solver object holds the velocity conditions \<open>bcu\<close> (the inflow
  profile \<open>(4.0*1.5*x[1]*(0.41 - x[1]) / pow(0.41, 2), 0)\<close> at \<open>near(x[0], 0)\<close>,
  zero on the walls, zero on the cylinder) and the pressure condition \<open>bcp\<close> (zero at
  \<open>near(x[0], 2.2)\<close>), after any number of passes. Substep 1 (tentative velocity)
  applies exactly the conditions of \<open>bcu\<close> to its right-hand side, substep 2 (pressure)
  exactly those of \<open>bcp\<close>, substep 3 (velocity correction) none; \<open>advance\<close> is the
  three substeps followed by the two updates. \<open>__init__\<close> applies \<open>bcu\<close> to
  \<open>A1\<close>, \<open>bcp\<close> to \<open>A2\<close> and nothing to \<open>A3\<close>.
\<close>

theorem C7_dirichlet_data:
  "bcu (nss (after_steps lib n)) =
     [\<lparr>bc_space = Space_nss_V,
       bc_value = Expression [''4.0*1.5*x[1]*(0.41 - x[1]) / pow(0.41, 2)'', ''0''] 2,
       bc_where = ''near(x[0], 0)''\<rparr>,
      \<lparr>bc_space = Space_nss_V, bc_value = ConstantVec [0, 0],
       bc_where = ''near(x[1], 0) || near(x[1], 0.41)''\<rparr>,
      \<lparr>bc_space = Space_nss_V, bc_value = ConstantVec [0, 0],
       bc_where = ''on_boundary && x[0]>0.1 && x[0]<0.3 && x[1]>0.1 && x[1]<0.3''\<rparr>]
   \<and> bcp (nss (after_steps lib n)) =
     [\<lparr>bc_space = Space_nss_Q, bc_value = Constant 0, bc_where = ''near(x[0], 2.2)''\<rparr>]
   \<and> store (step1 lib st) =
     (store st)(Fn_nss_u_new :=
        krylov_solve lib (A1 (nss st)) (store st Fn_nss_u_new)
          (fold (bc_apply_vector lib) (bcu (nss st))
             (assemble_vector lib (L1 (nss st)) (store st)))
          ''bicgstab'' ''ilu'')
   \<and> store (step2 lib st) =
     (store st)(Fn_nss_p_new :=
        krylov_solve lib (A2 (nss st)) (store st Fn_nss_p_new)
          (fold (bc_apply_vector lib) (bcp (nss st))
             (assemble_vector lib (L2 (nss st)) (store st)))
          ''bicgstab'' ''ilu'')
   \<and> store (step3 lib st) =
     (store st)(Fn_nss_u_new :=
        krylov_solve lib (A3 (nss st)) (store st Fn_nss_u_new)
          (assemble_vector lib (L3 (nss st)) (store st)) ''cg'' ''sor'')
   \<and> advance lib st =
       assign Fn_nss_p_k Fn_nss_p_new
         (assign Fn_nss_u_k Fn_nss_u_new (step3 lib (step2 lib (step1 lib st))))
   \<and> nss (step1 lib st) = nss st
   \<and> nss (step2 lib st) = nss st
   \<and> nss (step3 lib st) = nss st
   \<and> A1 (nss (after_steps lib n)) =
       fold (bc_apply_matrix lib) (bcu (nss (after_steps lib n)))
         (assemble_matrix lib (Lhs (F1_form (Constant dt)))
            (\<lambda>g. new_function lib (fn_space g)))
   \<and> A2 (nss (after_steps lib n)) =
       fold (bc_apply_matrix lib) (bcp (nss (after_steps lib n)))
         (assemble_matrix lib a2_form (\<lambda>g. new_function lib (fn_space g)))
   \<and> A3 (nss (after_steps lib n)) =
       assemble_matrix lib a3_form (\<lambda>g. new_function lib (fn_space g))
   \<and> filter is_BCApply (new_events st (step1 lib st)) =
       map (\<lambda>b. BCApply b (L1 (nss st))) (bcu (nss st))
   \<and> filter is_BCApply (new_events st (step2 lib st)) =
       map (\<lambda>b. BCApply b (L2 (nss st))) (bcp (nss st))
   \<and> filter is_BCApply (new_events st (step3 lib st)) = []
   \<and> filter is_BCApply (trace (initial_state lib)) =
       map (\<lambda>b. BCApply b (Lhs (F1_form (Constant dt)))) (bcu (nss (initial_state lib)))
       @ map (\<lambda>b. BCApply b a2_form) (bcp (nss (initial_state lib)))"
proof -
  have a: "filter is_BCApply (new_events st (step1 lib st)) =
       map (\<lambda>b. BCApply b (L1 (nss st))) (bcu (nss st))"
    "filter is_BCApply (new_events st (step2 lib st)) =
       map (\<lambda>b. BCApply b (L2 (nss st))) (bcp (nss st))"
    "filter is_BCApply (new_events st (step3 lib st)) = []"
    by (simp_all add: new_events_def filter_is_BCApply_steps)
  have b: "bcu (nss (after_steps lib n)) =
     [\<lparr>bc_space = Space_nss_V,
       bc_value = Expression [''4.0*1.5*x[1]*(0.41 - x[1]) / pow(0.41, 2)'', ''0''] 2,
       bc_where = ''near(x[0], 0)''\<rparr>,
      \<lparr>bc_space = Space_nss_V, bc_value = ConstantVec [0, 0],
       bc_where = ''near(x[1], 0) || near(x[1], 0.41)''\<rparr>,
      \<lparr>bc_space = Space_nss_V, bc_value = ConstantVec [0, 0],
       bc_where = ''on_boundary && x[0]>0.1 && x[0]<0.3 && x[1]>0.1 && x[1]<0.3''\<rparr>]"
    "bcp (nss (after_steps lib n)) =
     [\<lparr>bc_space = Space_nss_Q, bc_value = Constant 0, bc_where = ''near(x[0], 2.2)''\<rparr>]"
    by (simp_all add: bcu_inflow_def bcu_walls_def bcu_cylinder_def bcp_outflow_def
        inflow_profile_def inflow_def walls_def cylinder_def outflow_def)
  have c: "A1 (nss (after_steps lib n)) =
       fold (bc_apply_matrix lib) (bcu (nss (after_steps lib n)))
         (assemble_matrix lib (Lhs (F1_form (Constant dt)))
            (\<lambda>g. new_function lib (fn_space g)))"
    "A2 (nss (after_steps lib n)) =
       fold (bc_apply_matrix lib) (bcp (nss (after_steps lib n)))
         (assemble_matrix lib a2_form (\<lambda>g. new_function lib (fn_space g)))"
    "A3 (nss (after_steps lib n)) =
       assemble_matrix lib a3_form (\<lambda>g. new_function lib (fn_space g))"
    by (simp_all add: init_matrices)
  have d: "filter is_BCApply (trace (initial_state lib)) =
       map (\<lambda>b. BCApply b (Lhs (F1_form (Constant dt)))) (bcu (nss (initial_state lib)))
       @ map (\<lambda>b. BCApply b a2_form) (bcp (nss (initial_state lib)))"
    by (simp add: initial_state_trace)
  show ?thesis
    by (intro conjI a b c d step1_store step2_store step3_store advance_def step1_simps
        step2_simps step3_simps)
qed


section \<open>The concentration system\<close>

text \<open>
  Claim C3. The residual that the program solves is \<open>F\<close> built with
  \<open>k = Constant(dt)\<close>, \<open>K = Constant(10.0)\<close>, \<open>eps = Constant(0.01)\<close>. Its
  integrals are, up to order, the three transport terms of each of the three species
  (backward-Euler difference quotient, advection by \<open>w\<close>, diffusion with \<open>eps\<close>),
  the reaction terms \<open>+K*u_1*u_2\<close> against \<open>v_1\<close> and \<open>v_2\<close> and
  \<open>-K*u_1*u_2 + K*u_3\<close> against \<open>v_3\<close>, and the three source terms. The only
  integrals that hold the unknown of one species against the test function of another are
  the three \<open>K*u_1*u_2\<close> terms.
\<close>

theorem C3_residual_structure:
  "var_F (after_steps lib n) = F_form (Constant dt) (Constant 10) (Constant (1 / 100))
   \<and> mset (integrals (F_form kk KK ee)) =
       mset (concat (map (transport_terms kk ee) [1, 2, 3]) @ reaction_terms KK @ source_terms)
   \<and> filter (\<lambda>(sg, e). couples e) (integrals (F_form (Constant dt) (Constant 10) (Constant (1 / 100)))) =
       [(True, Integral (Mul (Mul (Mul (Constant 10) (u_comp 1)) (u_comp 2)) (v_comp 1)) dx),
        (True, Integral (Mul (Mul (Mul (Constant 10) (u_comp 1)) (u_comp 2)) (v_comp 2)) dx),
        (False, Integral (Mul (Mul (Mul (Constant 10) (u_comp 1)) (u_comp 2)) (v_comp 3)) dx)]"
proof -
  have a: "var_F (after_steps lib n) = F_form (Constant dt) (Constant 10) (Constant (1 / 100))"
    by (simp add: k_const_def K_const_def eps_const_def)
  have b: "mset (integrals (F_form kk KK ee)) =
       mset (concat (map (transport_terms kk ee) [1, 2, 3]) @ reaction_terms KK @ source_terms)"
    by (simp add: F_form_def transport_terms_def reaction_terms_def source_terms_def)
  have c: "filter (\<lambda>(sg, e). couples e) (integrals (F_form (Constant dt) (Constant 10) (Constant (1 / 100)))) =
       [(True, Integral (Mul (Mul (Mul (Constant 10) (u_comp 1)) (u_comp 2)) (v_comp 1)) dx),
        (True, Integral (Mul (Mul (Mul (Constant 10) (u_comp 1)) (u_comp 2)) (v_comp 2)) dx),
        (False, Integral (Mul (Mul (Mul (Constant 10) (u_comp 1)) (u_comp 2)) (v_comp 3)) dx)]"
    by (simp add: F_form_def couples_def u_comp_def u_n_comp_def v_comp_def f_1_def f_2_def f_3_def)
  from a b c show ?thesis by blast
qed

text \<open>
  Claim C5. In every pass through the loop body the copy \<open>w.assign(nss.u_k)\<close> comes
  before \<open>solve(F == 0, u)\<close>, and these are the only calls that write \<open>w\<close> or solve
  the concentration system. The copy gives \<open>w\<close> the value of \<open>u_k\<close>. The nonlinear
  solve leaves \<open>u_k\<close>, \<open>u_\<close>, \<open>p_k\<close>, \<open>p_\<close> and the solver object as they
  were; after the whole pass they hold what \<open>advance\<close> left in them, and \<open>w\<close> holds
  the \<open>u_k\<close> that \<open>advance\<close> computed.
\<close>

theorem C5_one_way_coupling:
  "filter (\<lambda>e. is_NLSolve e \<or> e = Assign Fn_w Fn_nss_u_k) (new_events st (loop_body lib i st)) =
     [Assign Fn_w Fn_nss_u_k, NLSolve (var_F st) Fn_u]
   \<and> store (assign Fn_w Fn_nss_u_k s) Fn_w = store s Fn_nss_u_k
   \<and> store (nonlinear_solve lib s) Fn_nss_u_k = store s Fn_nss_u_k
   \<and> store (nonlinear_solve lib s) Fn_nss_u_new = store s Fn_nss_u_new
   \<and> store (nonlinear_solve lib s) Fn_nss_p_k = store s Fn_nss_p_k
   \<and> store (nonlinear_solve lib s) Fn_nss_p_new = store s Fn_nss_p_new
   \<and> nss (nonlinear_solve lib s) = nss s
   \<and> store (loop_body lib i st) Fn_w =
       store (advance lib (st\<lparr>var_k := PyInt i, var_t := var_t st + dt\<rparr>)) Fn_nss_u_k
   \<and> store (loop_body lib i st) Fn_nss_u_k =
       store (advance lib (st\<lparr>var_k := PyInt i, var_t := var_t st + dt\<rparr>)) Fn_nss_u_k
   \<and> store (loop_body lib i st) Fn_nss_u_new =
       store (advance lib (st\<lparr>var_k := PyInt i, var_t := var_t st + dt\<rparr>)) Fn_nss_u_new
   \<and> store (loop_body lib i st) Fn_nss_p_k =
       store (advance lib (st\<lparr>var_k := PyInt i, var_t := var_t st + dt\<rparr>)) Fn_nss_p_k
   \<and> store (loop_body lib i st) Fn_nss_p_new =
       store (advance lib (st\<lparr>var_k := PyInt i, var_t := var_t st + dt\<rparr>)) Fn_nss_p_new"
proof -
  have "filter (\<lambda>e. is_NLSolve e \<or> e = Assign Fn_w Fn_nss_u_k)
      (new_events st (loop_body lib i st)) = [Assign Fn_w Fn_nss_u_k, NLSolve (var_F st) Fn_u]"
    by (simp add: new_events_def filter_coupling_iteration)
  then show ?thesis
    by (simp add: loop_body_store_nss assign_store nonlinear_solve_store)
qed

text \<open>
  Claim C9. \<open>dt = T / num_steps\<close>. Before the loop the name \<open>k\<close> is
  \<open>Constant(dt)\<close> and \<open>F\<close> is built from it; after pass \<open>n\<close> the name \<open>k\<close> is
  the integer \<open>n\<close>, while \<open>F\<close> is still the form built from \<open>Constant(dt)\<close>, whose
  three difference quotients divide by it. A pass changes neither \<open>F\<close> nor the solver
  object, whose \<open>DT\<close> is \<open>Constant(dt)\<close> and whose forms are built from it, and adds
  \<open>dt\<close> to \<open>t\<close>. Every nonlinear solve of the run is given that same \<open>F\<close>.
\<close>

theorem C9_constant_time_step:
  "dt = T_final / of_nat num_steps
   \<and> var_k (initial_state lib) = PyExpr (Constant dt)
   \<and> var_F (initial_state lib) = F_form (Constant dt) K_const eps_const
   \<and> var_k (after_steps lib (Suc n)) = PyInt n
   \<and> var_F (after_steps lib n) = F_form (Constant dt) K_const eps_const
   \<and> var_F (loop_body lib i st) = var_F st
   \<and> nss (loop_body lib i st) = nss st
   \<and> var_t (loop_body lib i st) = var_t st + dt
   \<and> DT (nss (after_steps lib n)) = Constant dt
   \<and> F1 (nss (after_steps lib n)) = F1_form (Constant dt)
   \<and> L2 (nss (after_steps lib n)) = L2_form (Constant dt)
   \<and> L3 (nss (after_steps lib n)) = L3_form (Constant dt)
   \<and> filter is_NLSolve (new_events (initial_state lib) (after_steps lib n)) =
       replicate n (NLSolve (F_form (Constant dt) K_const eps_const) Fn_u)
   \<and> occurs (Div (Sub (u_comp 1) (u_n_comp 1)) (Constant dt)) (F_form (Constant dt) KK ee)
   \<and> occurs (Div (Sub (u_comp 2) (u_n_comp 2)) (Constant dt)) (F_form (Constant dt) KK ee)
   \<and> occurs (Div (Sub (u_comp 3) (u_n_comp 3)) (Constant dt)) (F_form (Constant dt) KK ee)"
proof -
  have a: "filter is_NLSolve (new_events (initial_state lib) (after_steps lib n)) =
       replicate n (NLSolve (F_form (Constant dt) K_const eps_const) Fn_u)"
    unfolding after_steps_def time_loop_new_events
    by (subst filter_concat_const [OF filter_is_NLSolve_iteration])
      (simp add: k_const_def)
  have b: "occurs (Div (Sub (u_comp j) (u_n_comp j)) (Constant dt)) (F_form (Constant dt) KK ee)"
    if "j = 1 \<or> j = 2 \<or> j = 3" for j
    using that by (auto simp: F_form_def)
  have c: "var_k (after_steps lib (Suc n)) = PyInt n"
    by (simp add: after_steps_Suc)
  show ?thesis
    using a b [of 1] b [of 2] b [of 3] c by (simp add: dt_def k_const_def)
qed

section \<open>The time-stepping loop and its output\<close>

text \<open>
  Claim C6. The run is \<open>num_steps\<close> passes through the loop body, with
  \<open>k = 0, \<dots>, num_steps - 1\<close>, from the initial state. One pass leaves the store that
  results from: the three solves and two updates of \<open>advance\<close>, then the copy of the
  new velocity into \<open>w\<close>, then the nonlinear solve on that store, whose result goes into
  \<open>u\<close>, then the copy of the new \<open>u\<close> into \<open>u_n\<close>; it leaves the solver object
  and \<open>F\<close> as they were. The solves and assignments logged over the whole run are
  \<open>num_steps\<close> repetitions of that sequence; setting up makes no solve; the run makes
  \<open>num_steps\<close> nonlinear and \<open>3 * num_steps\<close> linear solves, and the loop index
  ends at 499.
\<close>

theorem C6_iteration_order:
  "main lib = after_steps lib num_steps
   \<and> after_steps lib 0 = initial_state lib
   \<and> after_steps lib (Suc n) = loop_body lib n (after_steps lib n)
   \<and> store (loop_body lib i st) =
     (let self = nss st;
          b1 = fold (bc_apply_vector lib) (bcu self) (assemble_vector lib (L1 self) (store st));
          u_tent = krylov_solve lib (A1 self) (store st Fn_nss_u_new) b1 ''bicgstab'' ''ilu'';
          sto1 = (store st)(Fn_nss_u_new := u_tent);
          b2 = fold (bc_apply_vector lib) (bcp self) (assemble_vector lib (L2 self) sto1);
          p_corr = krylov_solve lib (A2 self) (store st Fn_nss_p_new) b2 ''bicgstab'' ''ilu'';
          sto2 = sto1(Fn_nss_p_new := p_corr);
          b3 = assemble_vector lib (L3 self) sto2;
          u_corr = krylov_solve lib (A3 self) u_tent b3 ''cg'' ''sor'';
          sto3 = sto2(Fn_nss_u_new := u_corr, Fn_nss_u_k := u_corr, Fn_nss_p_k := p_corr,
                      Fn_w := u_corr);
          u_sol = newton_solve lib (var_F st) sto3 Fn_u
      in sto3(Fn_u := u_sol, Fn_u_n := u_sol))
   \<and> nss (loop_body lib i st) = nss st
   \<and> var_F (loop_body lib i st) = var_F st
   \<and> var_k (loop_body lib i st) = PyInt i
   \<and> filter (\<lambda>e. is_LinSolve e \<or> is_NLSolve e \<or> is_Assign e)
       (new_events (initial_state lib) (main lib)) =
     concat (replicate num_steps
       [LinSolve (Lhs (F1_form (Constant dt))) Fn_nss_u_new (Rhs (F1_form (Constant dt)))
          ''bicgstab'' ''ilu'',
        LinSolve a2_form Fn_nss_p_new (L2_form (Constant dt)) ''bicgstab'' ''ilu'',
        LinSolve a3_form Fn_nss_u_new (L3_form (Constant dt)) ''cg'' ''sor'',
        Assign Fn_nss_u_k Fn_nss_u_new, Assign Fn_nss_p_k Fn_nss_p_new,
        Assign Fn_w Fn_nss_u_k,
        NLSolve (F_form (Constant dt) (Constant 10) (Constant (1 / 100))) Fn_u,
        Assign Fn_u_n Fn_u])
   \<and> filter (\<lambda>e. is_LinSolve e \<or> is_NLSolve e \<or> is_Assign e) (trace (initial_state lib)) = []
   \<and> length (filter is_NLSolve (trace (main lib))) = num_steps
   \<and> length (filter is_LinSolve (trace (main lib))) = 3 * num_steps
   \<and> var_k (main lib) = PyInt 499"
proof -
  let ?st = "initial_state lib"
  have a: "filter (\<lambda>e. is_LinSolve e \<or> is_NLSolve e \<or> is_Assign e) (new_events ?st (main lib)) =
     concat (replicate num_steps
       [LinSolve (Lhs (F1_form (Constant dt))) Fn_nss_u_new (Rhs (F1_form (Constant dt)))
          ''bicgstab'' ''ilu'',
        LinSolve a2_form Fn_nss_p_new (L2_form (Constant dt)) ''bicgstab'' ''ilu'',
        LinSolve a3_form Fn_nss_u_new (L3_form (Constant dt)) ''cg'' ''sor'',
        Assign Fn_nss_u_k Fn_nss_u_new, Assign Fn_nss_p_k Fn_nss_p_new,
        Assign Fn_w Fn_nss_u_k,
        NLSolve (F_form (Constant dt) (Constant 10) (Constant (1 / 100))) Fn_u,
        Assign Fn_u_n Fn_u])"
    unfolding main_def time_loop_new_events
    by (subst filter_concat_const [OF filter_steps_iteration])
      (simp add: k_const_def K_const_def eps_const_def)
  have b: "filter (\<lambda>e. is_LinSolve e \<or> is_NLSolve e \<or> is_Assign e) (trace ?st) = []"
    by (simp add: initial_state_trace)
  have tr: "trace (main lib) = trace ?st @ concat (map (iteration_events (nss ?st) (var_F ?st))
      [0..<num_steps])"
    by (simp only: main_def time_loop_trace)
  have c: "length (filter is_NLSolve (trace (main lib))) = num_steps"
    unfolding tr filter_append
    by (subst filter_concat_const [OF filter_is_NLSolve_iteration])
      (simp add: initial_state_trace length_concat sum_list_replicate)
  have d: "length (filter is_LinSolve (trace (main lib))) = 3 * num_steps"
    unfolding tr filter_append
    by (subst filter_concat_const [OF filter_is_LinSolve_advance_iteration])
      (simp add: initial_state_trace length_concat sum_list_replicate)
  have "[0..<Suc 499] = [0..<499] @ [499]"
    by (rule upt_Suc_append) simp
  moreover have "num_steps = Suc 499"
    by (simp add: num_steps_def)
  ultimately have "[0..<num_steps] = [0..<499] @ [499]"
    by (simp only:)
  then have e: "var_k (main lib) = PyInt 499"
    by (simp only: main_def time_loop_var_k)
  show ?thesis
    by (intro conjI main_after_steps after_steps_0 after_steps_Suc loop_body_store
        loop_body_simps a b c d e)
qed

text \<open>
  Claim C8. The program writes to exactly three files, \<open>u_1.pvd\<close>, \<open>u_2.pvd\<close>
  and \<open>u_3.pvd\<close>, the \<open>j\<close>-th receiving component \<open>j\<close> of \<open>u\<close>. One pass
  through the loop body either appends one sample (the component of the \<open>u\<close> just
  computed, at the current time) to each of the three files or leaves all three unchanged,
  and the file-writing calls of the pass are the three writes or none. With
  \<open>out_interval = num_steps / 100 = 5\<close> the passes that write are
  \<open>k = 0, 5, 10, \<dots>, 495\<close>, five apart, and each file ends with 100 samples.
\<close>

theorem C8_three_files:
  "vtkfile_u_1 (loop_body lib i st) = vtkfile_u_1 st @
     (if output_cond i
      then [(sub_function lib (store (loop_body lib i st) Fn_u) 1, var_t (loop_body lib i st))]
      else [])
   \<and> vtkfile_u_2 (loop_body lib i st) = vtkfile_u_2 st @
     (if output_cond i
      then [(sub_function lib (store (loop_body lib i st) Fn_u) 2, var_t (loop_body lib i st))]
      else [])
   \<and> vtkfile_u_3 (loop_body lib i st) = vtkfile_u_3 st @
     (if output_cond i
      then [(sub_function lib (store (loop_body lib i st) Fn_u) 3, var_t (loop_body lib i st))]
      else [])
   \<and> filter is_FileWrite (new_events st (loop_body lib i st)) =
     (if output_cond i
      then [FileWrite ''reaction_system/u_1.pvd'' 1, FileWrite ''reaction_system/u_2.pvd'' 2,
            FileWrite ''reaction_system/u_3.pvd'' 3]
      else [])
   \<and> out_interval = of_nat num_steps / 100
   \<and> out_interval = 5
   \<and> filter output_cond [0..<num_steps] = map (\<lambda>j. 5 * j) [0..<100]
   \<and> length (vtkfile_u_1 (main lib)) = 100
   \<and> length (vtkfile_u_2 (main lib)) = 100
   \<and> length (vtkfile_u_3 (main lib)) = 100"
proof -
  have fw: "filter is_FileWrite (new_events st (loop_body lib i st)) =
     (if output_cond i
      then [FileWrite ''reaction_system/u_1.pvd'' 1, FileWrite ''reaction_system/u_2.pvd'' 2,
            FileWrite ''reaction_system/u_3.pvd'' 3]
      else [])"
    by (simp add: new_events_def filter_is_FileWrite_iteration)
  have len: "length (vtkfile_u_1 (main lib)) = 100" "length (vtkfile_u_2 (main lib)) = 100"
    "length (vtkfile_u_3 (main lib)) = 100"
    by (simp_all add: main_def time_loop_file_lengths filter_output_cond)
  show ?thesis
    using fw len loop_body_files [of lib i st] filter_output_cond out_interval_5
    by (simp add: out_interval_def)
qed

text \<open>
  Claim C10. The run is the loop over \<open>range(num_steps)\<close>, \<open>num_steps = 500\<close>. Every
  index of the loop is below \<open>num_steps\<close>, so \<open>k == num_steps\<close> is false in every
  pass and the output condition holds exactly when \<open>k\<close> is a multiple of
  \<open>out_interval = 5\<close>. Each file ends as the 100 samples taken in the passes
  \<open>k = 0, 5, \<dots>, 495\<close>, sample \<open>j\<close> being the component of \<open>u\<close> and the time
  that pass \<open>5 * j\<close> leaves. The last sample is that of pass 495; the passes 496 to
  499, the final one among them, add nothing to any file.
\<close>

theorem C10_last_sample:
  "main lib = time_loop lib [0..<num_steps] (initial_state lib)
   \<and> list_all (\<lambda>i. i < num_steps \<and> i \<noteq> num_steps \<and> (output_cond i \<longleftrightarrow> i mod 5 = 0))
       [0..<num_steps]
   \<and> num_steps = 500
   \<and> out_interval = 5
   \<and> filter output_cond [0..<num_steps] = map (\<lambda>j. 5 * j) [0..<100]
   \<and> vtkfile_u_1 (main lib) =
       map (\<lambda>j. (sub_function lib (store (after_steps lib (Suc (5 * j))) Fn_u) 1,
                  var_t (after_steps lib (Suc (5 * j))))) [0..<100]
   \<and> vtkfile_u_2 (main lib) =
       map (\<lambda>j. (sub_function lib (store (after_steps lib (Suc (5 * j))) Fn_u) 2,
                  var_t (after_steps lib (Suc (5 * j))))) [0..<100]
   \<and> vtkfile_u_3 (main lib) =
       map (\<lambda>j. (sub_function lib (store (after_steps lib (Suc (5 * j))) Fn_u) 3,
                  var_t (after_steps lib (Suc (5 * j))))) [0..<100]
   \<and> last (vtkfile_u_1 (main lib)) =
       (sub_function lib (store (after_steps lib 496) Fn_u) 1, var_t (after_steps lib 496))
   \<and> last (vtkfile_u_2 (main lib)) =
       (sub_function lib (store (after_steps lib 496) Fn_u) 2, var_t (after_steps lib 496))
   \<and> last (vtkfile_u_3 (main lib)) =
       (sub_function lib (store (after_steps lib 496) Fn_u) 3, var_t (after_steps lib 496))
   \<and> main lib = after_steps lib 500
   \<and> vtkfile_u_1 (after_steps lib 500) = vtkfile_u_1 (after_steps lib 496)
   \<and> vtkfile_u_2 (after_steps lib 500) = vtkfile_u_2 (after_steps lib 496)
   \<and> vtkfile_u_3 (after_steps lib 500) = vtkfile_u_3 (after_steps lib 496)
   \<and> after_steps lib (Suc n) = loop_body lib n (after_steps lib n)
   \<and> output_cond 495
   \<and> \<not> output_cond 499"
proof -
  have l: "last (map f [0..<100]) = f 99" for f :: "nat \<Rightarrow> 'b \<times> rat"
    by (simp add: last_map)
  have "Suc (5 * 99) = 496" by simp
  then have la: "last (vtkfile_u_1 (main lib)) =
       (sub_function lib (store (after_steps lib 496) Fn_u) 1, var_t (after_steps lib 496))"
    "last (vtkfile_u_2 (main lib)) =
       (sub_function lib (store (after_steps lib 496) Fn_u) 2, var_t (after_steps lib 496))"
    "last (vtkfile_u_3 (main lib)) =
       (sub_function lib (store (after_steps lib 496) Fn_u) 3, var_t (after_steps lib 496))"
    by (simp_all only: main_files l)
  have m: "main lib = after_steps lib 500"
    by (simp add: main_after_steps num_steps_def)
  have o: "output_cond 495" "\<not> output_cond 499"
    by (simp_all add: output_cond_iff)
  show ?thesis
    by (intro conjI main_def indices_in_range num_steps_def out_interval_5 filter_output_cond
        main_files la m last_passes_silent after_steps_Suc o)
qed


end
